theory Spec2Isabelle
  imports Complex_Main
begin

text \<open>
  A model of \<open>CustomScrollbarComponent\<close> (\<open>custom-scrollbar.component.ts\<close>), the overlay
  scrollbar that sizes and positions a thumb from the scroll metrics of a viewport, lets the
  thumb be dragged by mouse or touch, and scrolls on a click on its track. The first
  sections model what the component runs on: JavaScript numbers and strings, the elements
  it reads and writes, listeners and timers. Then come its methods, and the properties
  proved about them.
\<close>

section \<open>JavaScript numbers\<close>

text \<open>
  The component computes with JavaScript \<open>number\<close>s. A number is modelled as a finite
  real, one of the two infinities, or NaN. Finite arithmetic is exact (binary64 rounding
  and overflow are not modelled) and the sign of zero is not tracked: every zero divisor
  of the component is a difference \<open>x - x\<close> of two layout measurements, which is \<open>+0\<close>.
  The operations below follow the ECMAScript rules for the special values, so a division
  by zero yields NaN or an infinity and never the \<open>0\<close> of HOL's total division.
\<close>

datatype jsnum = Fin real | PInf | NInf | NaN

fun js_neg :: "jsnum \<Rightarrow> jsnum" where
  "js_neg (Fin a) = Fin (- a)"
| "js_neg PInf = NInf"
| "js_neg NInf = PInf"
| "js_neg NaN = NaN"

fun js_add :: "jsnum \<Rightarrow> jsnum \<Rightarrow> jsnum" where
  "js_add NaN y = NaN"
| "js_add x NaN = NaN"
| "js_add (Fin a) (Fin b) = Fin (a + b)"
| "js_add PInf NInf = NaN"
| "js_add NInf PInf = NaN"
| "js_add PInf y = PInf"
| "js_add x PInf = PInf"
| "js_add NInf y = NInf"
| "js_add x NInf = NInf"

definition js_sub :: "jsnum \<Rightarrow> jsnum \<Rightarrow> jsnum" where
  "js_sub x y = js_add x (js_neg y)"

text \<open>The sign of an infinite product or quotient, given the sign of the finite operand.\<close>

definition signed_inf :: "bool \<Rightarrow> jsnum" where
  "signed_inf positive = (if positive then PInf else NInf)"

fun js_mul :: "jsnum \<Rightarrow> jsnum \<Rightarrow> jsnum" where
  "js_mul NaN y = NaN"
| "js_mul x NaN = NaN"
| "js_mul (Fin a) (Fin b) = Fin (a * b)"
| "js_mul (Fin a) PInf = (if a = 0 then NaN else signed_inf (0 < a))"
| "js_mul (Fin a) NInf = (if a = 0 then NaN else signed_inf (a < 0))"
| "js_mul PInf (Fin b) = (if b = 0 then NaN else signed_inf (0 < b))"
| "js_mul NInf (Fin b) = (if b = 0 then NaN else signed_inf (b < 0))"
| "js_mul PInf PInf = PInf"
| "js_mul NInf NInf = PInf"
| "js_mul PInf NInf = NInf"
| "js_mul NInf PInf = NInf"

fun js_div :: "jsnum \<Rightarrow> jsnum \<Rightarrow> jsnum" where
  "js_div NaN y = NaN"
| "js_div x NaN = NaN"
| "js_div (Fin a) (Fin b) =
     (if b = 0 then (if a = 0 then NaN else signed_inf (0 < a)) else Fin (a / b))"
| "js_div (Fin a) PInf = Fin 0"
| "js_div (Fin a) NInf = Fin 0"
| "js_div PInf (Fin b) = signed_inf (0 \<le> b)"
| "js_div NInf (Fin b) = signed_inf (b < 0)"
| "js_div PInf PInf = NaN"
| "js_div PInf NInf = NaN"
| "js_div NInf PInf = NaN"
| "js_div NInf NInf = NaN"

text \<open>\<open>Math.min\<close> and \<open>Math.max\<close> of two arguments: NaN if either argument is NaN.\<close>

fun Math_min :: "jsnum \<Rightarrow> jsnum \<Rightarrow> jsnum" where
  "Math_min NaN y = NaN"
| "Math_min x NaN = NaN"
| "Math_min (Fin a) (Fin b) = Fin (min a b)"
| "Math_min NInf y = NInf"
| "Math_min x NInf = NInf"
| "Math_min PInf y = y"
| "Math_min x PInf = x"

fun Math_max :: "jsnum \<Rightarrow> jsnum \<Rightarrow> jsnum" where
  "Math_max NaN y = NaN"
| "Math_max x NaN = NaN"
| "Math_max (Fin a) (Fin b) = Fin (max a b)"
| "Math_max PInf y = PInf"
| "Math_max x PInf = PInf"
| "Math_max NInf y = y"
| "Math_max x NInf = x"

text \<open>The comparison \<open>x <= y\<close>: false as soon as one side is NaN.\<close>

fun js_le :: "jsnum \<Rightarrow> jsnum \<Rightarrow> bool" where
  "js_le NaN y = False"
| "js_le x NaN = False"
| "js_le (Fin a) (Fin b) = (a \<le> b)"
| "js_le NInf y = True"
| "js_le x PInf = True"
| "js_le PInf y = False"
| "js_le x NInf = False"

fun is_finite :: "jsnum \<Rightarrow> bool" where
  "is_finite (Fin a) = True"
| "is_finite x = False"

section \<open>JavaScript strings\<close>

text \<open>
  Strings are lists of 8-bit code units. \<open>isWhiteSpace\<close> is the class \<open>\s\<close> of a regular
  expression, which is also what \<open>parseFloat\<close> skips at the start of its argument: tab,
  line feed, vertical tab, form feed, carriage return, space and no-break space (the members
  of the class below code unit 256).
\<close>

definition isWhiteSpace :: "char \<Rightarrow> bool" where
  "isWhiteSpace c = ((of_char c :: nat) \<in> {9, 10, 11, 12, 13, 32, 160})"

definition isDigit :: "char \<Rightarrow> bool" where
  "isDigit c = (48 \<le> (of_char c :: nat) \<and> (of_char c :: nat) \<le> 57)"

definition startsWith :: "string \<Rightarrow> string \<Rightarrow> bool" where
  "startsWith s p = (take (length p) s = p)"

text \<open>\<open>s.includes(sub)\<close>: \<open>sub\<close> occurs in \<open>s\<close> as a contiguous substring.\<close>

fun str_includes :: "string \<Rightarrow> string \<Rightarrow> bool" where
  "str_includes [] sub = (sub = [])"
| "str_includes (c # s) sub = (startsWith (c # s) sub \<or> str_includes s sub)"

subsection \<open>parseFloat\<close>

text \<open>
  \<open>parseFloat\<close> skips leading white space and reads the longest prefix of the rest that is
  a decimal literal: an optional sign, then \<open>Infinity\<close> or digits with an optional fraction
  and an optional exponent. Without such a prefix the result is NaN. The value is the exact
  real the literal denotes.
\<close>

definition digitsValue :: "string \<Rightarrow> nat" where
  "digitsValue ds = foldl (\<lambda>a c. 10 * a + ((of_char c :: nat) - 48)) 0 ds"

text \<open>
  The exponent part at the start of \<open>s\<close>, as (negative, magnitude): \<open>e\<close> or \<open>E\<close>, an
  optional sign and at least one digit; \<open>(False, 0)\<close> when \<open>s\<close> does not start with one.
\<close>

definition exponentPart :: "string \<Rightarrow> bool \<times> nat" where
  "exponentPart s =
     (case s of
        [] \<Rightarrow> (False, 0)
      | c # r \<Rightarrow>
          if c = CHR ''e'' \<or> c = CHR ''E'' then
            (let neg = startsWith r ''-'';
                 r' = (if startsWith r ''-'' \<or> startsWith r ''+'' then tl r else r);
                 ds = takeWhile isDigit r'
             in if ds = [] then (False, 0) else (neg, digitsValue ds))
          else (False, 0))"

definition parseFloat :: "string \<Rightarrow> jsnum" where
  "parseFloat str =
     (let trimmed = dropWhile isWhiteSpace str;
          neg = startsWith trimmed ''-'';
          u = (if startsWith trimmed ''-'' \<or> startsWith trimmed ''+'' then tl trimmed
               else trimmed)
      in if startsWith u ''Infinity'' then signed_inf (\<not> neg)
         else
           (let ip = takeWhile isDigit u;
                r1 = dropWhile isDigit u;
                fp = (if startsWith r1 ''.'' then takeWhile isDigit (tl r1) else []);
                r2 = (if startsWith r1 ''.'' then dropWhile isDigit (tl r1) else r1)
            in if ip = [] \<and> fp = [] then NaN
               else
                 (let m = real (digitsValue ip) + real (digitsValue fp) / 10 ^ length fp;
                      e = exponentPart r2;
                      v = (if fst e then m / 10 ^ snd e else m * 10 ^ snd e)
                  in Fin (if neg then - v else v))))"

subsection \<open>Regular expression matching\<close>

text \<open>
  The drag handlers read the thumb's offset back with
  \<^verbatim>\<open>transform.match(/translate3d\(0,\s*([^,]+)px,\s*0\)/)\<close>. The pattern is a sequence of
  literal texts, greedy \<open>c*\<close> runs over a character class, and one capturing group \<open>(c+)\<close>.
  \<open>match\<close> without the \<open>g\<close> flag returns the leftmost match, and at one start position the
  first one a backtracking matcher finds: each run first takes as many characters as it
  can and gives them back one at a time while the rest of the pattern fails.
\<close>

datatype regex_item = Lit string | Star "char \<Rightarrow> bool" | Group_Plus "char \<Rightarrow> bool"

text \<open>
  \<open>greedy P acc s k\<close> consumes a run of \<open>P\<close>-characters from \<open>s\<close>, the longest first, and
  hands the text consumed (after \<open>acc\<close>) and the remaining input to the continuation \<open>k\<close>.
\<close>

fun greedy :: "(char \<Rightarrow> bool) \<Rightarrow> string \<Rightarrow> string \<Rightarrow> (string \<Rightarrow> string \<Rightarrow> 'a option) \<Rightarrow> 'a option" where
  "greedy P acc [] k = k acc []"
| "greedy P acc (c # s) k =
     (if P c then
        (case greedy P (acc @ [c]) s k of
           Some r \<Rightarrow> Some r
         | None \<Rightarrow> k acc (c # s))
      else k acc (c # s))"

text \<open>
  \<open>match_here items s caps\<close>: the pattern \<open>items\<close> matches a prefix of \<open>s\<close>; the result is the
  list of captured texts, \<open>caps\<close> followed by those of \<open>items\<close>.
\<close>

primrec match_here :: "regex_item list \<Rightarrow> string \<Rightarrow> string list \<Rightarrow> string list option" where
  "match_here [] s caps = Some caps"
| "match_here (i # rest) s caps =
     (case i of
        Lit l \<Rightarrow> (if startsWith s l then match_here rest (drop (length l) s) caps else None)
      | Star P \<Rightarrow> greedy P [] s (\<lambda>w r. match_here rest r caps)
      | Group_Plus P \<Rightarrow>
          greedy P [] s (\<lambda>w r. if w = [] then None else match_here rest r (caps @ [w])))"

text \<open>\<open>regex_match items s\<close>: the captures of the leftmost match of \<open>items\<close> in \<open>s\<close>, if any.\<close>

fun regex_match :: "regex_item list \<Rightarrow> string \<Rightarrow> string list option" where
  "regex_match items [] = match_here items [] []"
| "regex_match items (c # s) =
     (case match_here items (c # s) [] of
        Some caps \<Rightarrow> Some caps
      | None \<Rightarrow> regex_match items s)"

definition translate3d_regex :: "regex_item list" where
  "translate3d_regex =
     [Lit ''translate3d(0,'', Star isWhiteSpace, Group_Plus (\<lambda>c. c \<noteq> CHR '',''),
      Lit ''px,'', Star isWhiteSpace, Lit ''0)'']"

subsection \<open>Numbers in template literals\<close>

text \<open>
  A template literal such as \<^verbatim>\<open>`${thumbHeight}px`\<close> converts a number to a string. For
  NaN, the infinities and the integers the result is fixed; for any other number its digits
  are those of the binary64 value. The methods below therefore take the conversion as their
  parameter \<open>numToString\<close>, and every theorem about them holds for each conversion.
  \<open>integerToString\<close> is the conversion on NaN, the infinities and the integers (it drops the
  fraction of any other number); the worked examples use it, on such values only.
\<close>

function natToString :: "nat \<Rightarrow> string" where
  "natToString n =
     (if n < 10 then [''0123456789'' ! n]
      else natToString (n div 10) @ [''0123456789'' ! (n mod 10)])"
  by pat_completeness auto
termination
  by (relation "measure (\<lambda>n. n)") auto

declare natToString.simps [simp del]

definition integerToString :: "jsnum \<Rightarrow> string" where
  "integerToString x =
     (case x of
        NaN \<Rightarrow> ''NaN''
      | PInf \<Rightarrow> ''Infinity''
      | NInf \<Rightarrow> ''-Infinity''
      | Fin r \<Rightarrow> (if r < 0 then ''-'' else []) @ natToString (nat \<lfloor>\<bar>r\<bar>\<rfloor>))"

text \<open>\<^verbatim>\<open>`translate3d(0, ${y}px, 0)`\<close>\<close>

definition translate3d :: "(jsnum \<Rightarrow> string) \<Rightarrow> jsnum \<Rightarrow> string" where
  "translate3d numToString y = ''translate3d(0, '' @ numToString y @ ''px, 0)''"

text \<open>\<open>a || b\<close> on strings: the empty string is the only falsy one.\<close>

definition or_else :: "string \<Rightarrow> string \<Rightarrow> string" where
  "or_else a b = (if a = [] then b else a)"

section \<open>The document and the component\<close>

text \<open>
  The inline style of an element: the properties the component writes, each a string that
  reads back as it was written (what a browser does with a value it cannot parse, and how
  it serialises the values it keeps, is not modelled). \<open>background_color\<close> holds the value
  and the priority given to \<open>setProperty\<close>.
\<close>

record css_style =
  display :: string
  height :: string
  width :: string
  transform :: string
  opacity :: string
  background_color :: "string \<times> string"

record element =
  style :: css_style
  offsetHeight :: real

text \<open>
  The viewport. \<open>scrollTop\<close>, \<open>scrollHeight\<close>, \<open>clientHeight\<close> and an element's
  \<open>offsetHeight\<close> are what the browser reports; they are finite, and only the browser changes
  them (layout, scrolling, CSS transitions). What an assignment to \<open>scrollTop\<close> or a call of
  \<open>scrollTo\<close> does to the scroll position is the browser's business as well: the model
  records the calls, in order, in \<open>scroll_calls\<close>.
\<close>

datatype scroll_call = SetScrollTop jsnum | ScrollTo jsnum string

record viewport =
  scrollTop :: real
  scrollHeight :: real
  clientHeight :: real
  scroll_calls :: "scroll_call list"

datatype ThemeColors = Green | Blue

record color_scheme =
  thumb :: string
  thumbHover :: string
  thumbActive :: string
  track :: string
  trackHover :: string

definition colorSchemes :: "ThemeColors \<Rightarrow> color_scheme" where
  "colorSchemes c =
     (case c of
        Green \<Rightarrow>
          \<lparr>thumb = ''#08a208'',
           thumbHover = ''rgba(21, 128, 61, 0.9)'',
           thumbActive = ''rgba(20, 83, 45, 0.95)'',
           track = ''rgba(224, 246,224,0.6)'',
           trackHover = ''rgba(34, 197, 94, 0.25)''\<rparr>
      | Blue \<Rightarrow>
          \<lparr>thumb = ''#0076CC'',
           thumbHover = ''rgba(0, 80, 160, 0.9)'',
           thumbActive = ''rgba(0, 60, 120, 0.95)'',
           track = ''rgba(217,229,255,0.6)'',
           trackHover = ''rgba(59, 130, 246, 0.25)''\<rparr>)"

text \<open>
  Event listeners and timers. \<open>this.m.bind(this)\<close> creates a new function object at each
  evaluation; a function object is its number of creation and the method it calls. A
  registered listener is identified by its target, its event type and its function object,
  and \<open>removeEventListener\<close> removes the listener with exactly these three.
\<close>

datatype bound_method =
  OnThumbMouseDown | OnThumbTouchStart
| OnDocumentMouseMove | OnDocumentMouseUp
| OnDocumentTouchMove | OnDocumentTouchEnd

datatype event_target = ThumbElement | Document

record listener =
  target :: event_target
  eventType :: string
  callback :: "nat \<times> bound_method"

text \<open>
  The two arrow functions given to timers: \<open>Recompute\<close> is
  \<^verbatim>\<open>() => { this.updateThumbSize(); this.updateThumbPosition(); }\<close> and \<open>Recheck\<close> is
  \<^verbatim>\<open>() => { this.updateThumbSize(); }\<close>.
\<close>

datatype timer_callback = Recompute | Recheck

text \<open>
  The component with the part of the document it works on. \<open>viewportEl\<close> and \<open>thumbEl\<close> are
  \<open>None\<close> until \<open>ngAfterViewInit\<close> assigns them; \<open>parentElement\<close> is the thumb's parent (the
  track), if it has one. \<open>contentObserver\<close> is \<open>Some True\<close> while the mutation observer
  observes and \<open>Some False\<close> once it is disconnected. \<open>routerSubscribed\<close> says that the
  subscription to the router's events is live (it ends when \<open>destroy$\<close> emits).
  \<open>rootStyle\<close> holds the custom properties set on \<open>document.documentElement.style\<close>.
  \<open>timeouts\<close> are the pending \<open>setTimeout\<close> calls and \<open>intervals\<close> the running \<open>setInterval\<close>
  calls, each with its delay in milliseconds.
\<close>

record component =
  scrollbarWidth :: jsnum
  trackColorOverride :: string
  thumbColorOverride :: string
  viewportEl :: "viewport option"
  thumbEl :: "element option"
  parentElement :: "element option"
  currentThemeColor :: ThemeColors
  isDragging :: bool
  dragStartY :: jsnum
  thumbStartY :: jsnum
  contentObserver :: "bool option"
  routerSubscribed :: bool
  mutationObserverDefined :: bool
  rootStyle :: "string \<Rightarrow> string option"
  listeners :: "listener list"
  functionsBound :: nat
  timeouts :: "(nat \<times> timer_callback) list"
  intervals :: "(nat \<times> timer_callback) list"

text \<open>
  A method returns, or it throws a \<open>TypeError\<close> when it reads a property of \<open>undefined\<close>;
  either way the component is left in the state reached.
\<close>

datatype outcome = Returns component | Throws component

text \<open>The state reached, whether the method returned or threw.\<close>

definition state_of :: "outcome \<Rightarrow> component" where
  "state_of r = (case r of Returns s \<Rightarrow> s | Throws s \<Rightarrow> s)"

definition and_then :: "outcome \<Rightarrow> (component \<Rightarrow> outcome) \<Rightarrow> outcome" where
  "and_then r f = (case r of Returns s \<Rightarrow> f s | Throws s \<Rightarrow> Throws s)"

text \<open>
  Events. A mouse event carries \<open>clientY\<close>; for a click on the track, \<open>targetIsThumb\<close> says
  whether \<open>event.target\<close> is the thumb element and \<open>rectTop\<close> is
  \<open>event.currentTarget.getBoundingClientRect().top\<close>. A touch event carries the \<open>clientY\<close> of
  each of its \<open>touches\<close>. \<open>preventDefault\<close> and \<open>stopPropagation\<close> act on the event only and
  are left out.
\<close>

record mouse_event =
  clientY :: real
  targetIsThumb :: bool
  rectTop :: real

record touch_event =
  touches :: "real list"

definition bind_this :: "bound_method \<Rightarrow> component \<Rightarrow> (nat \<times> bound_method) \<times> component" where
  "bind_this m s = ((functionsBound s, m), s\<lparr>functionsBound := Suc (functionsBound s)\<rparr>)"

definition addEventListener ::
  "event_target \<Rightarrow> string \<Rightarrow> nat \<times> bound_method \<Rightarrow> component \<Rightarrow> component" where
  "addEventListener tgt ty fn s =
     (let l = \<lparr>target = tgt, eventType = ty, callback = fn\<rparr>
      in if l \<in> set (listeners s) then s else s\<lparr>listeners := listeners s @ [l]\<rparr>)"

definition removeEventListener ::
  "event_target \<Rightarrow> string \<Rightarrow> nat \<times> bound_method \<Rightarrow> component \<Rightarrow> component" where
  "removeEventListener tgt ty fn s =
     s\<lparr>listeners := removeAll \<lparr>target = tgt, eventType = ty, callback = fn\<rparr> (listeners s)\<rparr>"

definition setTimeout :: "timer_callback \<Rightarrow> nat \<Rightarrow> component \<Rightarrow> component" where
  "setTimeout cb ms s = s\<lparr>timeouts := timeouts s @ [(ms, cb)]\<rparr>"

definition setInterval :: "timer_callback \<Rightarrow> nat \<Rightarrow> component \<Rightarrow> component" where
  "setInterval cb ms s = s\<lparr>intervals := intervals s @ [(ms, cb)]\<rparr>"

section \<open>The component's methods\<close>

text \<open>
  Each method of \<open>CustomScrollbarComponent\<close> is a function on the component's state, with
  the locals of the source as \<open>let\<close> bindings. \<open>updateThumbSize_old\<close> is never called and is
  left out.
\<close>

subsection \<open>Theme and colours\<close>

definition updateThemeColor :: "string \<Rightarrow> component \<Rightarrow> component" where
  "updateThemeColor url s =
     (if str_includes url ''/machine'' then s\<lparr>currentThemeColor := Blue\<rparr>
      else s\<lparr>currentThemeColor := Green\<rparr>)"

definition applyCustomization :: "(jsnum \<Rightarrow> string) \<Rightarrow> component \<Rightarrow> component" where
  "applyCustomization numToString s =
     (case (thumbEl s, viewportEl s) of
        (Some t, Some v) \<Rightarrow>
          (let colorScheme = colorSchemes (currentThemeColor s);
               trackEl = map_option
                 (\<lambda>e. e\<lparr>style := (style e)\<lparr>width := numToString (scrollbarWidth s) @ ''px''\<rparr>\<rparr>)
                 (parentElement s);
               thumbColor = or_else (thumbColorOverride s) (thumb colorScheme);
               t' = t\<lparr>style := (style t)\<lparr>background_color := (thumbColor, ''important'')\<rparr>\<rparr>;
               trackColor = or_else (trackColorOverride s) (track colorScheme);
               trackEl' = map_option
                 (\<lambda>e. e\<lparr>style := (style e)\<lparr>background_color := (trackColor, ''important'')\<rparr>\<rparr>)
                 trackEl
           in s\<lparr>thumbEl := Some t',
                parentElement := trackEl',
                rootStyle := (rootStyle s)
                  (''--custom-scrollbar-thumb-hover'' \<mapsto>
                     or_else (thumbColorOverride s) (thumbHover colorScheme),
                   ''--custom-scrollbar-thumb-active'' \<mapsto>
                     or_else (thumbColorOverride s) (thumbActive colorScheme),
                   ''--custom-scrollbar-track-hover'' \<mapsto>
                     or_else (trackColorOverride s) (trackHover colorScheme))\<rparr>)
      | _ \<Rightarrow> s)"

text \<open>
  \<open>ngOnInit\<close> reads \<open>this.router.url\<close> (the parameter \<open>url\<close>) and subscribes to the router's
  events until \<open>destroy$\<close> emits; \<open>navigationEnd\<close> is the delivery of a \<open>NavigationEnd\<close> event
  to that subscription.
\<close>

definition ngOnInit :: "string \<Rightarrow> component \<Rightarrow> component" where
  "ngOnInit url s = (updateThemeColor url s)\<lparr>routerSubscribed := True\<rparr>"

definition navigationEnd :: "(jsnum \<Rightarrow> string) \<Rightarrow> string \<Rightarrow> component \<Rightarrow> component" where
  "navigationEnd numToString url s =
     (if routerSubscribed s then
        (let s1 = updateThemeColor url s
         in if thumbEl s1 \<noteq> None \<and> viewportEl s1 \<noteq> None
            then applyCustomization numToString s1 else s1)
      else s)"

subsection \<open>Thumb size and position\<close>

definition updateThumbSize :: "(jsnum \<Rightarrow> string) \<Rightarrow> component \<Rightarrow> outcome" where
  "updateThumbSize numToString s =
     (case (viewportEl s, thumbEl s) of
        (Some v, Some t) \<Rightarrow>
          if js_le (Fin (scrollHeight v)) (js_add (Fin (clientHeight v)) (Fin 5)) then
            Returns (s\<lparr>thumbEl := Some (t\<lparr>style := (style t)\<lparr>display := ''none''\<rparr>\<rparr>),
                       parentElement := map_option
                         (\<lambda>e. e\<lparr>style := (style e)\<lparr>display := ''none''\<rparr>\<rparr>) (parentElement s)\<rparr>)
          else
            (let trackEl = map_option
                   (\<lambda>e. e\<lparr>style := (style e)\<lparr>display := ''block''\<rparr>\<rparr>) (parentElement s);
                 thumbHeightRatio = js_div (Fin (clientHeight v)) (Fin (scrollHeight v));
                 minThumbHeight = Fin 50;
                 maxThumbHeight = js_sub (Fin (clientHeight v)) (Fin 20);
                 calculatedHeight = js_mul (Fin (clientHeight v)) thumbHeightRatio;
                 thumbHeight = Math_max minThumbHeight (Math_min maxThumbHeight calculatedHeight)
             in Returns (s\<lparr>thumbEl := Some (t\<lparr>style := (style t)
                               \<lparr>display := ''block'', height := numToString thumbHeight @ ''px''\<rparr>\<rparr>),
                           parentElement := trackEl\<rparr>))
      | _ \<Rightarrow> Throws s)"

definition updateThumbPosition :: "(jsnum \<Rightarrow> string) \<Rightarrow> component \<Rightarrow> outcome" where
  "updateThumbPosition numToString s =
     (case (viewportEl s, thumbEl s) of
        (Some v, Some t) \<Rightarrow>
          (let scrollPercentage =
                 js_div (Fin (scrollTop v)) (js_sub (Fin (scrollHeight v)) (Fin (clientHeight v)));
               thumbMaxY = js_sub (Fin (clientHeight v)) (Fin (offsetHeight t));
               thumbY = js_mul scrollPercentage thumbMaxY
           in Returns (s\<lparr>thumbEl := Some (t\<lparr>style := (style t)
                             \<lparr>transform := translate3d numToString thumbY\<rparr>\<rparr>)\<rparr>))
      | _ \<Rightarrow> Throws s)"

definition onContentScroll :: "(jsnum \<Rightarrow> string) \<Rightarrow> component \<Rightarrow> outcome" where
  "onContentScroll numToString s =
     (if \<not> isDragging s then updateThumbPosition numToString s else Returns s)"

subsection \<open>Dragging with the mouse\<close>

definition onThumbMouseDown :: "mouse_event \<Rightarrow> component \<Rightarrow> outcome" where
  "onThumbMouseDown event s =
     (let s1 = s\<lparr>isDragging := True, dragStartY := Fin (clientY event)\<rparr>
      in case thumbEl s1 of
           None \<Rightarrow> Throws s1
         | Some t \<Rightarrow>
             (let match = regex_match translate3d_regex (transform (style t));
                  s2 = s1\<lparr>thumbStartY :=
                         (case match of
                            None \<Rightarrow> Fin 0
                          | Some [] \<Rightarrow> NaN
                          | Some (group1 # _) \<Rightarrow> parseFloat group1)\<rparr>;
                  (f1, s3) = bind_this OnDocumentMouseMove s2;
                  s4 = addEventListener Document ''mousemove'' f1 s3;
                  (f2, s5) = bind_this OnDocumentMouseUp s4;
                  s6 = addEventListener Document ''mouseup'' f2 s5
              in Returns (s6\<lparr>thumbEl := Some (t\<lparr>style := (style t)\<lparr>opacity := ''0.8''\<rparr>\<rparr>)\<rparr>)))"

definition onDocumentMouseMove :: "(jsnum \<Rightarrow> string) \<Rightarrow> mouse_event \<Rightarrow> component \<Rightarrow> outcome" where
  "onDocumentMouseMove numToString event s =
     (if \<not> isDragging s then Returns s
      else
        case (viewportEl s, thumbEl s) of
          (Some v, Some t) \<Rightarrow>
            (let deltaY = js_sub (Fin (clientY event)) (dragStartY s);
                 newThumbY = js_add (thumbStartY s) deltaY;
                 thumbMaxY = js_sub (Fin (clientHeight v)) (Fin (offsetHeight t));
                 clampedThumbY = Math_max (Fin 0) (Math_min newThumbY thumbMaxY);
                 t' = t\<lparr>style := (style t)\<lparr>transform := translate3d numToString clampedThumbY\<rparr>\<rparr>;
                 scrollPercentage = js_div clampedThumbY thumbMaxY;
                 newScrollTop =
                   js_mul scrollPercentage (js_sub (Fin (scrollHeight v)) (Fin (clientHeight v)))
             in Returns (s\<lparr>thumbEl := Some t',
                           viewportEl := Some (v\<lparr>scroll_calls :=
                             scroll_calls v @ [SetScrollTop newScrollTop]\<rparr>)\<rparr>))
        | _ \<Rightarrow> Throws s)"

definition onDocumentMouseUp :: "component \<Rightarrow> outcome" where
  "onDocumentMouseUp s =
     (if \<not> isDragging s then Returns s
      else
        (let s1 = s\<lparr>isDragging := False\<rparr>;
             (f1, s2) = bind_this OnDocumentMouseMove s1;
             s3 = removeEventListener Document ''mousemove'' f1 s2;
             (f2, s4) = bind_this OnDocumentMouseUp s3;
             s5 = removeEventListener Document ''mouseup'' f2 s4
         in case thumbEl s5 of
              None \<Rightarrow> Throws s5
            | Some t \<Rightarrow> Returns (s5\<lparr>thumbEl := Some (t\<lparr>style := (style t)\<lparr>opacity := []\<rparr>\<rparr>)\<rparr>)))"

subsection \<open>Click on the track\<close>

definition onTrackClick :: "mouse_event \<Rightarrow> component \<Rightarrow> outcome" where
  "onTrackClick event s =
     (if targetIsThumb event \<and> thumbEl s \<noteq> None then Returns s
      else
        case (viewportEl s, thumbEl s) of
          (Some v, Some t) \<Rightarrow>
            (let clickY = js_sub (Fin (clientY event)) (Fin (rectTop event));
                 thumbHeight = Fin (offsetHeight t);
                 targetThumbY = js_sub clickY (js_div thumbHeight (Fin 2));
                 thumbMaxY = js_sub (Fin (clientHeight v)) thumbHeight;
                 clampedThumbY = Math_max (Fin 0) (Math_min targetThumbY thumbMaxY);
                 scrollPercentage = js_div clampedThumbY thumbMaxY;
                 newScrollTop =
                   js_mul scrollPercentage (js_sub (Fin (scrollHeight v)) (Fin (clientHeight v)))
             in Returns (s\<lparr>viewportEl := Some (v\<lparr>scroll_calls :=
                             scroll_calls v @ [ScrollTo newScrollTop ''smooth'']\<rparr>)\<rparr>))
        | _ \<Rightarrow> Throws s)"

subsection \<open>Dragging by touch\<close>

text \<open>\<open>event.touches[0]\<close> is \<open>undefined\<close> for an event without touches, and reading its
  \<open>clientY\<close> throws.\<close>

definition onThumbTouchStart :: "touch_event \<Rightarrow> component \<Rightarrow> outcome" where
  "onThumbTouchStart event s =
     (let s0 = s\<lparr>isDragging := True\<rparr>
      in case touches event of
           [] \<Rightarrow> Throws s0
         | touchY # _ \<Rightarrow>
             (let s1 = s0\<lparr>dragStartY := Fin touchY\<rparr>
              in case thumbEl s1 of
                   None \<Rightarrow> Throws s1
                 | Some t \<Rightarrow>
                     (let match = regex_match translate3d_regex (transform (style t));
                          s2 = s1\<lparr>thumbStartY :=
                                 (case match of
                                    None \<Rightarrow> Fin 0
                                  | Some [] \<Rightarrow> NaN
                                  | Some (group1 # _) \<Rightarrow> parseFloat group1)\<rparr>;
                          (f1, s3) = bind_this OnDocumentTouchMove s2;
                          s4 = addEventListener Document ''touchmove'' f1 s3;
                          (f2, s5) = bind_this OnDocumentTouchEnd s4;
                          s6 = addEventListener Document ''touchend'' f2 s5
                      in Returns (s6\<lparr>thumbEl :=
                                    Some (t\<lparr>style := (style t)\<lparr>opacity := ''0.8''\<rparr>\<rparr>)\<rparr>))))"

definition onDocumentTouchMove :: "(jsnum \<Rightarrow> string) \<Rightarrow> touch_event \<Rightarrow> component \<Rightarrow> outcome" where
  "onDocumentTouchMove numToString event s =
     (if \<not> isDragging s then Returns s
      else
        case touches event of
          [] \<Rightarrow> Throws s
        | touchY # _ \<Rightarrow>
            (case (viewportEl s, thumbEl s) of
               (Some v, Some t) \<Rightarrow>
                 (let deltaY = js_sub (Fin touchY) (dragStartY s);
                      newThumbY = js_add (thumbStartY s) deltaY;
                      thumbMaxY = js_sub (Fin (clientHeight v)) (Fin (offsetHeight t));
                      clampedThumbY = Math_max (Fin 0) (Math_min newThumbY thumbMaxY);
                      t' = t\<lparr>style := (style t)
                             \<lparr>transform := translate3d numToString clampedThumbY\<rparr>\<rparr>;
                      scrollPercentage = js_div clampedThumbY thumbMaxY;
                      newScrollTop =
                        js_mul scrollPercentage
                          (js_sub (Fin (scrollHeight v)) (Fin (clientHeight v)))
                  in Returns (s\<lparr>thumbEl := Some t',
                                viewportEl := Some (v\<lparr>scroll_calls :=
                                  scroll_calls v @ [SetScrollTop newScrollTop]\<rparr>)\<rparr>))
             | _ \<Rightarrow> Throws s))"

definition onDocumentTouchEnd :: "component \<Rightarrow> outcome" where
  "onDocumentTouchEnd s =
     (if \<not> isDragging s then Returns s
      else
        (let s1 = s\<lparr>isDragging := False\<rparr>;
             (f1, s2) = bind_this OnDocumentTouchMove s1;
             s3 = removeEventListener Document ''touchmove'' f1 s2;
             (f2, s4) = bind_this OnDocumentTouchEnd s3;
             s5 = removeEventListener Document ''touchend'' f2 s4
         in case thumbEl s5 of
              None \<Rightarrow> Throws s5
            | Some t \<Rightarrow> Returns (s5\<lparr>thumbEl := Some (t\<lparr>style := (style t)\<lparr>opacity := []\<rparr>\<rparr>)\<rparr>)))"

subsection \<open>Life cycle, observer and timers\<close>

text \<open>
  \<open>setupContentObserver\<close> creates the mutation observer where the environment has one, and
  starts the periodic recheck; the handle \<open>setInterval\<close> returns is dropped.
  \<open>mutationObserved\<close> is the observer's callback and \<open>onWindowResize\<close> the resize listener:
  both schedule a recomputation. \<open>timeoutFires\<close> and \<open>intervalFires\<close> are the browser running
  the \<open>i\<close>-th pending timeout (which is then spent) and the \<open>i\<close>-th interval.
\<close>

definition setupContentObserver :: "component \<Rightarrow> component" where
  "setupContentObserver s =
     (let s1 = (if mutationObserverDefined s then s\<lparr>contentObserver := Some True\<rparr> else s)
      in setInterval Recheck 1000 s1)"

definition mutationObserved :: "component \<Rightarrow> component" where
  "mutationObserved s =
     (if contentObserver s = Some True then setTimeout Recompute 50 s else s)"

definition onWindowResize :: "component \<Rightarrow> component" where
  "onWindowResize s = setTimeout Recompute 100 s"

definition runTimerCallback :: "(jsnum \<Rightarrow> string) \<Rightarrow> timer_callback \<Rightarrow> component \<Rightarrow> outcome" where
  "runTimerCallback numToString cb s =
     (case cb of
        Recompute \<Rightarrow> and_then (updateThumbSize numToString s) (updateThumbPosition numToString)
      | Recheck \<Rightarrow> updateThumbSize numToString s)"

definition timeoutFires :: "(jsnum \<Rightarrow> string) \<Rightarrow> nat \<Rightarrow> component \<Rightarrow> outcome" where
  "timeoutFires numToString i s =
     (if i < length (timeouts s) then
        runTimerCallback numToString (snd (timeouts s ! i))
          (s\<lparr>timeouts := take i (timeouts s) @ drop (Suc i) (timeouts s)\<rparr>)
      else Returns s)"

definition intervalFires :: "(jsnum \<Rightarrow> string) \<Rightarrow> nat \<Rightarrow> component \<Rightarrow> outcome" where
  "intervalFires numToString i s =
     (if i < length (intervals s) then runTimerCallback numToString (snd (intervals s ! i)) s
      else Returns s)"

text \<open>\<open>viewportRef\<close> and \<open>thumbRef\<close> are the native elements of the two view children.\<close>

definition ngAfterViewInit ::
  "(jsnum \<Rightarrow> string) \<Rightarrow> viewport \<Rightarrow> element \<Rightarrow> component \<Rightarrow> component" where
  "ngAfterViewInit numToString viewportRef thumbRef s =
     (let s1 = s\<lparr>viewportEl := Some viewportRef, thumbEl := Some thumbRef\<rparr>;
          s2 = applyCustomization numToString s1;
          s3 = setTimeout Recompute 200 s2;
          s4 = setupContentObserver s3;
          (f1, s5) = bind_this OnThumbMouseDown s4;
          s6 = addEventListener ThumbElement ''mousedown'' f1 s5;
          (f2, s7) = bind_this OnThumbTouchStart s6
      in addEventListener ThumbElement ''touchstart'' f2 s7)"

definition ngOnDestroy :: "component \<Rightarrow> component" where
  "ngOnDestroy s =
     (let s1 = s\<lparr>routerSubscribed := False\<rparr>;
          s2 = (case thumbEl s1 of
                  None \<Rightarrow> s1
                | Some t \<Rightarrow>
                    (let (f1, s') = bind_this OnThumbMouseDown s1
                     in removeEventListener ThumbElement ''mousedown'' f1 s'));
          s3 = (case thumbEl s2 of
                  None \<Rightarrow> s2
                | Some t \<Rightarrow>
                    (let (f2, s') = bind_this OnThumbTouchStart s2
                     in removeEventListener ThumbElement ''touchstart'' f2 s'))
      in case contentObserver s3 of
           None \<Rightarrow> s3
         | Some observing \<Rightarrow> s3\<lparr>contentObserver := Some False\<rparr>)"

subsection \<open>Calls into a mounted component\<close>

text \<open>
  After \<open>ngAfterViewInit\<close>, the framework and the browser call into the component through
  these entries: the router subscription, the template's scroll and click bindings, events
  on the thumb and on the document, the resize listener, the mutation observer, the timers,
  and \<open>ngOnDestroy\<close>. An event on the thumb or on the document runs the listeners registered
  for it, one after the other; a listener that throws does not keep the next one from
  running. The template's bindings and the resize listener are attached and detached by
  the framework, and the model lets them run at any time. \<open>deliver numToString e s\<close> is the
  state once the entry \<open>e\<close> has run to completion.
  \<open>isPointerMove\<close> singles out the pointer moves of a drag, and \<open>runsRecompute e s\<close> the
  timers whose callback is \<open>Recompute\<close>.
\<close>

datatype entry =
  NavigationEnd string
| ContentScroll
| ThumbMouseDown mouse_event
| DocumentMouseMove mouse_event
| DocumentMouseUp
| TrackClick mouse_event
| ThumbTouchStart touch_event
| DocumentTouchMove touch_event
| DocumentTouchEnd
| WindowResize
| MutationObserved
| TimeoutFires nat
| IntervalFires nat
| Destroy

text \<open>The number of listeners registered on \<open>tgt\<close> for the event type \<open>ty\<close> that call \<open>m\<close>.\<close>

definition registered :: "event_target \<Rightarrow> string \<Rightarrow> bound_method \<Rightarrow> component \<Rightarrow> nat" where
  "registered tgt ty m s =
     length (filter (\<lambda>l. target l = tgt \<and> eventType l = ty \<and> snd (callback l) = m)
       (listeners s))"

primrec runListeners :: "nat \<Rightarrow> (component \<Rightarrow> outcome) \<Rightarrow> component \<Rightarrow> component" where
  "runListeners 0 f s = s"
| "runListeners (Suc k) f s = runListeners k f (state_of (f s))"

definition deliver :: "(jsnum \<Rightarrow> string) \<Rightarrow> entry \<Rightarrow> component \<Rightarrow> component" where
  "deliver numToString e s =
     (case e of
        NavigationEnd url \<Rightarrow> navigationEnd numToString url s
      | ContentScroll \<Rightarrow> state_of (onContentScroll numToString s)
      | ThumbMouseDown event \<Rightarrow>
          runListeners (registered ThumbElement ''mousedown'' OnThumbMouseDown s)
            (onThumbMouseDown event) s
      | DocumentMouseMove event \<Rightarrow>
          runListeners (registered Document ''mousemove'' OnDocumentMouseMove s)
            (onDocumentMouseMove numToString event) s
      | DocumentMouseUp \<Rightarrow>
          runListeners (registered Document ''mouseup'' OnDocumentMouseUp s)
            onDocumentMouseUp s
      | TrackClick event \<Rightarrow> state_of (onTrackClick event s)
      | ThumbTouchStart event \<Rightarrow>
          runListeners (registered ThumbElement ''touchstart'' OnThumbTouchStart s)
            (onThumbTouchStart event) s
      | DocumentTouchMove event \<Rightarrow>
          runListeners (registered Document ''touchmove'' OnDocumentTouchMove s)
            (onDocumentTouchMove numToString event) s
      | DocumentTouchEnd \<Rightarrow>
          runListeners (registered Document ''touchend'' OnDocumentTouchEnd s)
            onDocumentTouchEnd s
      | WindowResize \<Rightarrow> onWindowResize s
      | MutationObserved \<Rightarrow> mutationObserved s
      | TimeoutFires i \<Rightarrow> state_of (timeoutFires numToString i s)
      | IntervalFires i \<Rightarrow> state_of (intervalFires numToString i s)
      | Destroy \<Rightarrow> ngOnDestroy s)"

definition isPointerMove :: "entry \<Rightarrow> bool" where
  "isPointerMove e =
     (case e of DocumentMouseMove event \<Rightarrow> True | DocumentTouchMove event \<Rightarrow> True | _ \<Rightarrow> False)"

definition runsRecompute :: "entry \<Rightarrow> component \<Rightarrow> bool" where
  "runsRecompute e s =
     (case e of
        TimeoutFires i \<Rightarrow> i < length (timeouts s) \<and> snd (timeouts s ! i) = Recompute
      | IntervalFires i \<Rightarrow> i < length (intervals s) \<and> snd (intervals s ! i) = Recompute
      | _ \<Rightarrow> False)"

section \<open>Observations and reference notions\<close>

text \<open>What a theorem looks at once a method has run: the inline styles of the thumb and of
  the track, and the scroll calls made on the viewport.\<close>

definition thumbStyle :: "component \<Rightarrow> css_style option" where
  "thumbStyle s = map_option style (thumbEl s)"

definition trackStyle :: "component \<Rightarrow> css_style option" where
  "trackStyle s = map_option style (parentElement s)"

definition scrollCalls :: "component \<Rightarrow> scroll_call list" where
  "scrollCalls s = (case viewportEl s of None \<Rightarrow> [] | Some v \<Rightarrow> scroll_calls v)"










section \<open>Example states\<close>

text \<open>
  \<open>newComponent\<close> is the component as constructed, with the field initialisers of the class.
  \<open>exampleWidget st sh ch oh\<close> is a widget after \<open>ngAfterViewInit\<close>, at rest, whose viewport
  reports \<open>scrollTop = st\<close>, \<open>scrollHeight = sh\<close> and \<open>clientHeight = ch\<close> and whose thumb
  reports \<open>offsetHeight = oh\<close>.
\<close>

definition emptyStyle :: css_style where
  "emptyStyle =
     \<lparr>display = [], height = [], width = [], transform = [], opacity = [],
      background_color = ([], [])\<rparr>"

definition exampleViewport :: "real \<Rightarrow> real \<Rightarrow> real \<Rightarrow> viewport" where
  "exampleViewport st sh ch =
     \<lparr>scrollTop = st, scrollHeight = sh, clientHeight = ch, scroll_calls = []\<rparr>"

definition exampleThumb :: "real \<Rightarrow> element" where
  "exampleThumb oh = \<lparr>style = emptyStyle, offsetHeight = oh\<rparr>"

definition newComponent :: component where
  "newComponent =
     \<lparr>scrollbarWidth = Fin 10, trackColorOverride = [], thumbColorOverride = [],
      viewportEl = None, thumbEl = None,
      parentElement = Some \<lparr>style = emptyStyle, offsetHeight = 0\<rparr>,
      currentThemeColor = Green, isDragging = False, dragStartY = Fin 0, thumbStartY = Fin 0,
      contentObserver = None, routerSubscribed = False, mutationObserverDefined = True,
      rootStyle = Map.empty, listeners = [], functionsBound = 0, timeouts = [],
      intervals = []\<rparr>"

definition exampleWidget :: "real \<Rightarrow> real \<Rightarrow> real \<Rightarrow> real \<Rightarrow> component" where
  "exampleWidget st sh ch oh =
     newComponent\<lparr>viewportEl := Some (exampleViewport st sh ch),
                  thumbEl := Some (exampleThumb oh)\<rparr>"

text \<open>
  \<open>exampleDrag y0 st sh ch oh\<close> is that widget during a drag that started with the pointer at
  \<open>0\<close> and the thumb at offset \<open>y0\<close>. \<open>mouseAt y\<close> is a mouse event at \<open>clientY = y\<close>, away
  from the thumb, on a track whose top is at \<open>0\<close>.
\<close>

definition exampleDrag :: "real \<Rightarrow> real \<Rightarrow> real \<Rightarrow> real \<Rightarrow> real \<Rightarrow> component" where
  "exampleDrag y0 st sh ch oh =
     (exampleWidget st sh ch oh)\<lparr>isDragging := True, thumbStartY := Fin y0\<rparr>"

definition mouseAt :: "real \<Rightarrow> mouse_event" where
  "mouseAt y = \<lparr>clientY = y, targetIsThumb = False, rectTop = 0\<rparr>"


text \<open>
  \<open>exampleDragMutation\<close>: a drag has put the thumb at offset 105 of a widget with
  \<open>clientHeight = 300\<close> and a thumb 90 pixels high, and the viewport at \<open>scrollTop = 350\<close>;
  the content has then grown to \<open>scrollHeight = 1800\<close>, and the mutation observer has
  scheduled its recomputation. The pointer is still down.
\<close>

definition exampleDragMutation :: component where
  "exampleDragMutation =
     mutationObserved
       ((exampleDrag 50 350 1800 300 90)
          \<lparr>thumbEl := Some \<lparr>style = emptyStyle\<lparr>transform := ''translate3d(0, 105px, 0)''\<rparr>,
                             offsetHeight = 90\<rparr>,
           contentObserver := Some True\<rparr>)"

text \<open>
  \<open>exampleMounted\<close> is a component after \<open>ngOnInit\<close> and \<open>ngAfterViewInit\<close> on a viewport with
  \<open>scrollHeight = 1000\<close> and \<open>clientHeight = 300\<close>, and \<open>exampleDestroyed\<close> is that component
  after \<open>ngOnDestroy\<close>.
\<close>

definition exampleMounted :: component where
  "exampleMounted =
     ngAfterViewInit integerToString (exampleViewport 0 1000 300) (exampleThumb 0)
       (ngOnInit ''/storage'' newComponent)"

definition exampleDestroyed :: component where
  "exampleDestroyed = ngOnDestroy exampleMounted"

section \<open>Arithmetic on finite numbers\<close>

lemma js_sub_Fin [simp]: "js_sub (Fin a) (Fin b) = Fin (a - b)"
  by (simp add: js_sub_def)

section \<open>Evaluating the examples\<close>

lemma natToString_small: "n < 10 \<Longrightarrow> natToString n = [''0123456789'' ! n]"
  by (simp add: natToString.simps)

lemma natToString_large:
  "\<not> n < 10 \<Longrightarrow> natToString n = natToString (n div 10) @ [''0123456789'' ! (n mod 10)]"
  by (subst natToString.simps) simp

lemmas show_defs = integerToString_def natToString_small natToString_large

lemmas example_defs = exampleWidget_def newComponent_def exampleViewport_def exampleThumb_def
  emptyStyle_def exampleDrag_def mouseAt_def

lemmas observe_defs = state_of_def thumbStyle_def trackStyle_def scrollCalls_def




section \<open>Thumb size\<close>

lemma thumbHeight_bounds:
  assumes "C + 5 < H"
  shows "\<exists>h. Math_max (Fin 50) (Math_min (Fin (C - 20)) (js_mul (Fin C) (js_div (Fin C) (Fin H))))
         = Fin h
     \<and> 50 \<le> h \<and> (70 \<le> C \<longrightarrow> h \<le> C - 20) \<and> (C < 70 \<longrightarrow> h = 50)
     \<and> (H \<noteq> 0 \<longrightarrow> h = max 50 (min (C - 20) (C * (C / H))))"
proof (cases "H = 0")
  case True
  with assms have "C < 0" by simp
  with True show ?thesis by (simp add: signed_inf_def)
next
  case False
  then show ?thesis by auto
qed

text \<open>
  C2 (as amended). Where the content overflows the viewport by more than 5 pixels,
  \<open>updateThumbSize\<close> returns and writes the height \<open>h\<close> pixels with
  \<open>h = max(50, min(clientHeight - 20, clientHeight * (clientHeight / scrollHeight)))\<close>. The
  lower bound \<open>50 \<le> h\<close> always holds. The upper bound \<open>h \<le> clientHeight - 20\<close> holds for
  \<open>clientHeight \<ge> 70\<close>; for a smaller viewport the minimum wins and \<open>h = 50\<close>.
\<close>

theorem C2_thumb_height_bounds:
  assumes "viewportEl s = Some v" and "thumbEl s = Some t"
    and "clientHeight v + 5 < scrollHeight v"
  shows "\<exists>s' t' h. updateThumbSize numToString s = Returns s' \<and> thumbEl s' = Some t'
     \<and> height (style t') = numToString (Fin h) @ ''px''
     \<and> 50 \<le> h
     \<and> (70 \<le> clientHeight v \<longrightarrow> h \<le> clientHeight v - 20)
     \<and> (clientHeight v < 70 \<longrightarrow> h = 50)
     \<and> (scrollHeight v \<noteq> 0 \<longrightarrow>
          h = max 50 (min (clientHeight v - 20)
                (clientHeight v * (clientHeight v / scrollHeight v))))"
proof -
  from thumbHeight_bounds [OF assms(3)] obtain h where
    h: "Math_max (Fin 50) (Math_min (Fin (clientHeight v - 20))
          (js_mul (Fin (clientHeight v)) (js_div (Fin (clientHeight v)) (Fin (scrollHeight v)))))
        = Fin h"
    and b: "50 \<le> h" "70 \<le> clientHeight v \<longrightarrow> h \<le> clientHeight v - 20"
      "clientHeight v < 70 \<longrightarrow> h = 50"
      "scrollHeight v \<noteq> 0 \<longrightarrow>
          h = max 50 (min (clientHeight v - 20)
                (clientHeight v * (clientHeight v / scrollHeight v)))"
    by blast
  from assms have "updateThumbSize numToString s =
      Returns (s\<lparr>thumbEl := Some (t\<lparr>style := (style t)
                   \<lparr>display := ''block'', height := numToString (Fin h) @ ''px''\<rparr>\<rparr>),
                 parentElement := map_option
                   (\<lambda>e. e\<lparr>style := (style e)\<lparr>display := ''block''\<rparr>\<rparr>) (parentElement s)\<rparr>)"
    using h by (simp add: updateThumbSize_def Let_def)
  with b show ?thesis by (auto intro!: exI [of _ h])
qed

theorem C2_thumb_height_bounds_witness:
  "\<exists>s' t'. updateThumbSize integerToString (exampleWidget 0 1000 300 0) = Returns s'
     \<and> thumbEl s' = Some t' \<and> height (style t') = ''90px''"
proof -
  have v: "viewportEl (exampleWidget 0 1000 300 0) = Some (exampleViewport 0 1000 300)"
    and t: "thumbEl (exampleWidget 0 1000 300 0) = Some (exampleThumb 0)"
    and h: "clientHeight (exampleViewport 0 1000 300) + 5
              < scrollHeight (exampleViewport 0 1000 300)"
    by (simp_all add: example_defs)
  from C2_thumb_height_bounds [OF v t h, of integerToString]
  show ?thesis
    by (auto simp add: exampleViewport_def show_defs)
qed

text \<open>
  C2 as stated fails for a viewport lower than 70 pixels: with \<open>clientHeight = 60\<close> and
  \<open>scrollHeight = 100\<close> the height written is \<open>50px\<close>, above \<open>clientHeight - 20 = 40\<close>.
\<close>

theorem C2_upper_bound_counterexample:
  "clientHeight (exampleViewport 0 100 60) + 5 < scrollHeight (exampleViewport 0 100 60)
   \<and> map_option height (thumbStyle (state_of (updateThumbSize integerToString
        (exampleWidget 0 100 60 0)))) = Some ''50px''
   \<and> integerToString (Fin 50) = ''50''
   \<and> \<not> (50 \<le> clientHeight (exampleViewport 0 100 60) - 20)"
  by (simp add: example_defs updateThumbSize_def observe_defs Let_def show_defs)

section \<open>Hidden state\<close>

text \<open>
  C4. Where \<open>scrollHeight \<le> clientHeight + 5\<close>, whatever \<open>scrollTop\<close> is, \<open>updateThumbSize\<close>
  returns with the thumb's \<open>display\<close> set to \<open>none\<close>, the \<open>display\<close> of the thumb's parent (the
  track, if the thumb has a parent) set to \<open>none\<close>, and nothing else changed: no height is
  computed or written.
\<close>

theorem C4_hidden_when_no_overflow:
  assumes "viewportEl s = Some v" and "thumbEl s = Some t"
    and "scrollHeight v \<le> clientHeight v + 5"
  shows "updateThumbSize numToString s =
      Returns (s\<lparr>thumbEl := Some (t\<lparr>style := (style t)\<lparr>display := ''none''\<rparr>\<rparr>),
                 parentElement := map_option
                   (\<lambda>e. e\<lparr>style := (style e)\<lparr>display := ''none''\<rparr>\<rparr>) (parentElement s)\<rparr>)
    \<and> map_option display (thumbStyle (state_of (updateThumbSize numToString s))) = Some ''none''
    \<and> map_option display (trackStyle (state_of (updateThumbSize numToString s)))
        = map_option (\<lambda>e. ''none'') (parentElement s)
    \<and> map_option height (thumbStyle (state_of (updateThumbSize numToString s)))
        = Some (height (style t))"
  using assms
  by (simp add: updateThumbSize_def observe_defs option.map_comp comp_def)

theorem C4_hidden_when_no_overflow_witness:
  "map_option display (thumbStyle (state_of (updateThumbSize integerToString
      (exampleWidget 0 300 300 0)))) = Some ''none''
   \<and> map_option display (trackStyle (state_of (updateThumbSize integerToString
      (exampleWidget 0 300 300 0)))) = Some ''none''
   \<and> map_option height (thumbStyle (state_of (updateThumbSize integerToString
      (exampleWidget 0 300 300 0)))) = Some []"
proof -
  have v: "viewportEl (exampleWidget 0 300 300 0) = Some (exampleViewport 0 300 300)"
    and t: "thumbEl (exampleWidget 0 300 300 0) = Some (exampleThumb 0)"
    and h: "scrollHeight (exampleViewport 0 300 300) \<le> clientHeight (exampleViewport 0 300 300) + 5"
    by (simp_all add: example_defs)
  from C4_hidden_when_no_overflow [OF v t h, of integerToString]
  have "map_option display (thumbStyle (state_of (updateThumbSize integerToString
            (exampleWidget 0 300 300 0)))) = Some ''none''
      \<and> map_option display (trackStyle (state_of (updateThumbSize integerToString
            (exampleWidget 0 300 300 0))))
          = map_option (\<lambda>e. ''none'') (parentElement (exampleWidget 0 300 300 0))
      \<and> map_option height (thumbStyle (state_of (updateThumbSize integerToString
            (exampleWidget 0 300 300 0)))) = Some (height (style (exampleThumb 0)))"
    by blast
  then show ?thesis
    by (simp add: example_defs)
qed

section \<open>Thumb position\<close>

text \<open>
  C1 (as amended). \<open>updateThumbPosition\<close> returns and writes the offset
  \<open>fraction * (clientHeight - offsetHeight)\<close>, where \<open>fraction\<close> is the quotient
  \<open>scrollTop / (scrollHeight - clientHeight)\<close>. For a non-zero denominator this is the real
  quotient. The division has no guard: for a zero denominator the fraction is NaN
  (\<open>scrollTop = 0\<close>) or an infinity, never \<open>0\<close>, and the offset written is not a finite number.
\<close>

theorem C1_scroll_fraction:
  assumes "viewportEl s = Some v" and "thumbEl s = Some t"
  shows "\<exists>fraction offsetY.
      updateThumbPosition numToString s =
        Returns (s\<lparr>thumbEl := Some (t\<lparr>style := (style t)
                   \<lparr>transform := translate3d numToString offsetY\<rparr>\<rparr>)\<rparr>)
    \<and> offsetY = js_mul fraction (Fin (clientHeight v - offsetHeight t))
    \<and> (scrollHeight v - clientHeight v \<noteq> 0 \<longrightarrow>
         fraction = Fin (scrollTop v / (scrollHeight v - clientHeight v))
         \<and> offsetY = Fin (scrollTop v / (scrollHeight v - clientHeight v)
                          * (clientHeight v - offsetHeight t)))
    \<and> (scrollHeight v - clientHeight v = 0 \<longrightarrow>
         fraction = (if scrollTop v = 0 then NaN else signed_inf (0 < scrollTop v))
         \<and> fraction \<noteq> Fin 0 \<and> \<not> is_finite offsetY)"
proof -
  let ?fraction = "js_div (Fin (scrollTop v)) (Fin (scrollHeight v - clientHeight v))"
  let ?offsetY = "js_mul ?fraction (Fin (clientHeight v - offsetHeight t))"
  from assms have "updateThumbPosition numToString s =
        Returns (s\<lparr>thumbEl := Some (t\<lparr>style := (style t)
                   \<lparr>transform := translate3d numToString ?offsetY\<rparr>\<rparr>)\<rparr>)"
    by (simp add: updateThumbPosition_def Let_def)
  moreover have "scrollHeight v - clientHeight v \<noteq> 0 \<longrightarrow>
         ?fraction = Fin (scrollTop v / (scrollHeight v - clientHeight v))
         \<and> ?offsetY = Fin (scrollTop v / (scrollHeight v - clientHeight v)
                          * (clientHeight v - offsetHeight t))"
    by simp
  moreover have "scrollHeight v - clientHeight v = 0 \<longrightarrow>
         ?fraction = (if scrollTop v = 0 then NaN else signed_inf (0 < scrollTop v))
         \<and> ?fraction \<noteq> Fin 0 \<and> \<not> is_finite ?offsetY"
    by (simp add: signed_inf_def)
  ultimately show ?thesis by blast
qed

theorem C1_scroll_fraction_witness:
  "map_option transform (thumbStyle (state_of (updateThumbPosition integerToString
      (exampleWidget 700 1000 300 90)))) = Some ''translate3d(0, 210px, 0)''"
proof -
  have v: "viewportEl (exampleWidget 700 1000 300 90) = Some (exampleViewport 700 1000 300)"
    and t: "thumbEl (exampleWidget 700 1000 300 90) = Some (exampleThumb 90)"
    by (simp_all add: example_defs)
  from C1_scroll_fraction [OF v t, of integerToString]
  show ?thesis
    by (auto simp add: example_defs observe_defs translate3d_def show_defs)
qed

text \<open>
  C1 as stated fails where the content fits the viewport exactly: with
  \<open>scrollHeight = clientHeight = 300\<close> and \<open>scrollTop = 0\<close> the fraction is \<open>0 / 0\<close>, and the
  offset written is \<open>NaN\<close>, not the \<open>0\<close> a guard would give.
\<close>

theorem C1_zero_denominator_counterexample:
  "scrollHeight (exampleViewport 0 300 300) - clientHeight (exampleViewport 0 300 300) = 0
   \<and> map_option transform (thumbStyle (state_of (updateThumbPosition integerToString
        (exampleWidget 0 300 300 0)))) = Some ''translate3d(0, NaNpx, 0)''
   \<and> translate3d integerToString (Fin 0) = ''translate3d(0, 0px, 0)''"
  by (simp add: example_defs updateThumbPosition_def observe_defs Let_def show_defs translate3d_def)

section \<open>Dragging\<close>


lemma clamp_cases:
  "Math_max (Fin 0) (Math_min c (Fin m)) =
     (case c of
        NaN \<Rightarrow> NaN
      | PInf \<Rightarrow> Fin (max 0 m)
      | NInf \<Rightarrow> Fin 0
      | Fin a \<Rightarrow> Fin (max 0 (min a m)))"
  by (cases c) simp_all

lemma onDocumentMouseMove_dragging:
  assumes "viewportEl s = Some v" and "thumbEl s = Some t" and "isDragging s"
  shows "onDocumentMouseMove numToString event s =
     Returns (s\<lparr>thumbEl := Some (t\<lparr>style := (style t)\<lparr>transform := translate3d numToString
                  (Math_max (Fin 0) (Math_min
                     (js_add (thumbStartY s) (js_sub (Fin (clientY event)) (dragStartY s)))
                     (Fin (clientHeight v - offsetHeight t))))\<rparr>\<rparr>),
                viewportEl := Some (v\<lparr>scroll_calls := scroll_calls v @
                  [SetScrollTop (js_mul
                     (js_div
                        (Math_max (Fin 0) (Math_min
                           (js_add (thumbStartY s) (js_sub (Fin (clientY event)) (dragStartY s)))
                           (Fin (clientHeight v - offsetHeight t))))
                        (Fin (clientHeight v - offsetHeight t)))
                     (Fin (scrollHeight v - clientHeight v)))]\<rparr>)\<rparr>)"
  using assms by (simp add: onDocumentMouseMove_def Let_def)

lemma onDocumentTouchMove_as_mouse:
  "touches tev = clientY event # ys \<Longrightarrow>
   onDocumentTouchMove numToString tev s = onDocumentMouseMove numToString event s"
  by (simp add: onDocumentTouchMove_def onDocumentMouseMove_def split: option.splits)

text \<open>
  C5 (as amended). During a drag, a pointer move writes the thumb offset
  \<open>max(0, min(thumbStartY + (pointerY - pointerStartY), thumbMaxY))\<close> with
  \<open>thumbMaxY = clientHeight - offsetHeight\<close>. With \<open>thumbMaxY \<ge> 0\<close> and a candidate offset
  that is a number, the offset written lies in \<open>[0, thumbMaxY]\<close>; it is exactly \<open>0\<close> for a
  candidate at or above the top of the track, exactly \<open>thumbMaxY\<close> for one at or below its
  end, and the candidate itself in between. With \<open>thumbMaxY < 0\<close> (a thumb higher than the
  viewport) and a candidate that is a number, the offset written is \<open>0\<close>. A candidate that
  is NaN is written as NaN, whatever \<open>thumbMaxY\<close> is. A touch move does what a mouse move at
  the first touch point does.
\<close>

theorem C5_drag_clamp:
  assumes "viewportEl s = Some v" and "thumbEl s = Some t" and "isDragging s"
  shows "let candidate = js_add (thumbStartY s) (js_sub (Fin (clientY event)) (dragStartY s));
             thumbMaxY = clientHeight v - offsetHeight t;
             clamped = Math_max (Fin 0) (Math_min candidate (Fin thumbMaxY))
         in map_option transform (thumbStyle (state_of (onDocumentMouseMove numToString event s)))
              = Some (translate3d numToString clamped)
          \<and> (0 \<le> thumbMaxY \<and> candidate \<noteq> NaN \<longrightarrow>
                js_le (Fin 0) clamped \<and> js_le clamped (Fin thumbMaxY))
          \<and> (0 \<le> thumbMaxY \<and> js_le candidate (Fin 0) \<longrightarrow> clamped = Fin 0)
          \<and> (0 \<le> thumbMaxY \<and> js_le (Fin thumbMaxY) candidate \<longrightarrow> clamped = Fin thumbMaxY)
          \<and> (thumbMaxY < 0 \<and> candidate \<noteq> NaN \<longrightarrow> clamped = Fin 0)
          \<and> (candidate = NaN \<longrightarrow> clamped = NaN)
          \<and> (js_le (Fin 0) candidate \<and> js_le candidate (Fin thumbMaxY) \<longrightarrow> clamped = candidate)
          \<and> (\<forall>touch ys. touches touch = clientY event # ys \<longrightarrow>
                onDocumentTouchMove numToString touch s
                  = onDocumentMouseMove numToString event s)"
proof -
  let ?c = "js_add (thumbStartY s) (js_sub (Fin (clientY event)) (dragStartY s))"
  let ?m = "clientHeight v - offsetHeight t"
  let ?k = "Math_max (Fin 0) (Math_min ?c (Fin ?m))"
  have w: "map_option transform (thumbStyle (state_of (onDocumentMouseMove numToString event s)))
              = Some (translate3d numToString ?k)"
    by (simp add: onDocumentMouseMove_dragging [OF assms] observe_defs)
  have b1: "0 \<le> ?m \<and> ?c \<noteq> NaN \<longrightarrow> js_le (Fin 0) ?k \<and> js_le ?k (Fin ?m)"
    by (cases ?c) (simp_all add: clamp_cases)
  have b2: "0 \<le> ?m \<and> js_le ?c (Fin 0) \<longrightarrow> ?k = Fin 0"
    by (cases ?c) (simp_all add: clamp_cases)
  have b3: "0 \<le> ?m \<and> js_le (Fin ?m) ?c \<longrightarrow> ?k = Fin ?m"
    by (cases ?c) (simp_all add: clamp_cases)
  have b4: "?m < 0 \<and> ?c \<noteq> NaN \<longrightarrow> ?k = Fin 0"
    by (cases ?c) (simp_all add: clamp_cases)
  have b6: "?c = NaN \<longrightarrow> ?k = NaN"
    by (cases ?c) (simp_all add: clamp_cases)
  have b7: "js_le (Fin 0) ?c \<and> js_le ?c (Fin ?m) \<longrightarrow> ?k = ?c"
    by (cases ?c) (simp_all add: clamp_cases)
  have b5: "\<forall>touch ys. touches touch = clientY event # ys \<longrightarrow>
      onDocumentTouchMove numToString touch s = onDocumentMouseMove numToString event s"
    using onDocumentTouchMove_as_mouse by blast
  from w b1 b2 b3 b4 b5 b6 b7 show ?thesis unfolding Let_def by blast
qed

theorem C5_drag_clamp_witness:
  "map_option transform (thumbStyle (state_of (onDocumentMouseMove integerToString (mouseAt 40)
      (exampleDrag 50 0 1000 300 90)))) = Some ''translate3d(0, 90px, 0)''
   \<and> map_option transform (thumbStyle (state_of (onDocumentMouseMove integerToString
      (mouseAt (- 100000)) (exampleDrag 50 0 1000 300 90)))) = Some ''translate3d(0, 0px, 0)''
   \<and> map_option transform (thumbStyle (state_of (onDocumentMouseMove integerToString
      (mouseAt 100000) (exampleDrag 50 0 1000 300 90)))) = Some ''translate3d(0, 210px, 0)''
   \<and> map_option transform (thumbStyle (state_of (onDocumentMouseMove integerToString
      (mouseAt 100000) (exampleDrag 0 0 100 40 50)))) = Some ''translate3d(0, 0px, 0)''
   \<and> map_option transform (thumbStyle (state_of (onDocumentMouseMove integerToString
      (mouseAt 5) ((exampleDrag 0 0 100 40 50)\<lparr>thumbStartY := NaN\<rparr>))))
        = Some ''translate3d(0, NaNpx, 0)''
   \<and> onDocumentTouchMove integerToString \<lparr>touches = [40, 7]\<rparr> (exampleDrag 50 0 1000 300 90)
        = onDocumentMouseMove integerToString (mouseAt 40) (exampleDrag 50 0 1000 300 90)"
proof -
  have v: "viewportEl (exampleDrag 50 0 1000 300 90) = Some (exampleViewport 0 1000 300)"
    and t: "thumbEl (exampleDrag 50 0 1000 300 90) = Some (exampleThumb 90)"
    and d: "isDragging (exampleDrag 50 0 1000 300 90)"
    by (simp_all add: example_defs)
  let ?n = "(exampleDrag 0 0 100 40 50)\<lparr>thumbStartY := NaN\<rparr>"
  have v': "viewportEl (exampleDrag 0 0 100 40 50) = Some (exampleViewport 0 100 40)"
    and t': "thumbEl (exampleDrag 0 0 100 40 50) = Some (exampleThumb 50)"
    and d': "isDragging (exampleDrag 0 0 100 40 50)"
    and v'': "viewportEl ?n = Some (exampleViewport 0 100 40)"
    and t'': "thumbEl ?n = Some (exampleThumb 50)"
    and d'': "isDragging ?n"
    by (simp_all add: example_defs)
  have c: "thumbStartY (exampleDrag 50 0 1000 300 90) = Fin 50"
    "dragStartY (exampleDrag 50 0 1000 300 90) = Fin 0"
    "clientHeight (exampleViewport 0 1000 300) = 300" "offsetHeight (exampleThumb 90) = 90"
    "thumbStartY (exampleDrag 0 0 100 40 50) = Fin 0"
    "dragStartY (exampleDrag 0 0 100 40 50) = Fin 0"
    "thumbStartY ?n = NaN" "dragStartY ?n = Fin 0"
    "clientHeight (exampleViewport 0 100 40) = 40" "offsetHeight (exampleThumb 50) = 50"
    "\<And>y. clientY (mouseAt y) = y"
    by (simp_all add: example_defs)
  from C5_drag_clamp [OF v t d, where numToString = integerToString and event = "mouseAt 40"]
  have 1: "map_option transform (thumbStyle (state_of (onDocumentMouseMove integerToString
      (mouseAt 40) (exampleDrag 50 0 1000 300 90)))) = Some ''translate3d(0, 90px, 0)''"
    by (simp add: Let_def c translate3d_def show_defs)
  from C5_drag_clamp [OF v t d, where numToString = integerToString and event = "mouseAt (- 100000)"]
  have 2: "map_option transform (thumbStyle (state_of (onDocumentMouseMove integerToString
      (mouseAt (- 100000)) (exampleDrag 50 0 1000 300 90)))) = Some ''translate3d(0, 0px, 0)''"
    by (simp add: Let_def c translate3d_def show_defs)
  from C5_drag_clamp [OF v t d, where numToString = integerToString and event = "mouseAt 100000"]
  have 3: "map_option transform (thumbStyle (state_of (onDocumentMouseMove integerToString
      (mouseAt 100000) (exampleDrag 50 0 1000 300 90)))) = Some ''translate3d(0, 210px, 0)''"
    by (simp add: Let_def c translate3d_def show_defs)
  from C5_drag_clamp [OF v' t' d', where numToString = integerToString and event = "mouseAt 100000"]
  have 4: "map_option transform (thumbStyle (state_of (onDocumentMouseMove integerToString
      (mouseAt 100000) (exampleDrag 0 0 100 40 50)))) = Some ''translate3d(0, 0px, 0)''"
    by (simp add: Let_def c translate3d_def show_defs)
  from C5_drag_clamp [OF v'' t'' d'', where numToString = integerToString and event = "mouseAt 5"]
  have 5: "map_option transform (thumbStyle (state_of (onDocumentMouseMove integerToString
      (mouseAt 5) ?n))) = Some ''translate3d(0, NaNpx, 0)''"
    by (simp add: Let_def c translate3d_def show_defs)
  from C5_drag_clamp [OF v t d, where numToString = integerToString and event = "mouseAt 40"]
  have "\<forall>touch ys. touches touch = clientY (mouseAt 40) # ys \<longrightarrow>
      onDocumentTouchMove integerToString touch (exampleDrag 50 0 1000 300 90)
        = onDocumentMouseMove integerToString (mouseAt 40) (exampleDrag 50 0 1000 300 90)"
    unfolding Let_def by blast
  from this [rule_format, of "\<lparr>touches = [40, 7]\<rparr>" "[7]"]
  have 6: "onDocumentTouchMove integerToString \<lparr>touches = [40, 7]\<rparr> (exampleDrag 50 0 1000 300 90)
        = onDocumentMouseMove integerToString (mouseAt 40) (exampleDrag 50 0 1000 300 90)"
    by (simp add: c)
  from 1 2 3 4 5 6 show ?thesis by blast
qed

text \<open>
  C5 as stated fails for a thumb higher than the viewport: with \<open>clientHeight = 40\<close> and
  \<open>offsetHeight = 50\<close>, \<open>thumbMaxY = -10\<close>, and a drag far below the track writes the offset
  \<open>0\<close>, which is neither \<open>thumbMaxY\<close> nor inside \<open>[0, thumbMaxY]\<close>.
\<close>

theorem C5_negative_range_counterexample:
  "isDragging (exampleDrag 0 0 100 40 50)
   \<and> map_option transform (thumbStyle (state_of (onDocumentMouseMove integerToString
        (mouseAt 100000) (exampleDrag 0 0 100 40 50)))) = Some ''translate3d(0, 0px, 0)''
   \<and> translate3d integerToString (Fin 0) = ''translate3d(0, 0px, 0)''
   \<and> clientHeight (exampleViewport 0 100 40) - offsetHeight (exampleThumb 50) = - 10
   \<and> \<not> js_le (Fin 0)
         (Fin (clientHeight (exampleViewport 0 100 40) - offsetHeight (exampleThumb 50)))"
  by (simp add: example_defs onDocumentMouseMove_def observe_defs Let_def show_defs translate3d_def)

section \<open>Position and drag as inverse mappings\<close>


lemma round_trip_arith:
  fixes x d m :: real
  assumes "0 < d" and "0 < m" and "0 \<le> x" and "x \<le> d"
  shows "0 \<le> x / d * m \<and> x / d * m \<le> m \<and> x / d * m / m * d = x"
proof -
  have q0: "0 \<le> x / d" and q1: "x / d \<le> 1"
    using assms by simp_all
  have a: "0 \<le> x / d * m"
    using q0 assms(2) by (intro mult_nonneg_nonneg) simp_all
  have "x / d * m \<le> 1 * m"
    using q1 assms(2) by (intro mult_right_mono) simp_all
  then have b: "x / d * m \<le> m" by simp
  have c: "x / d * m / m * d = x"
    using assms by simp
  from a b c show ?thesis by blast
qed

text \<open>
  C3 (as amended). Let \<open>scrollHeight > clientHeight\<close>, \<open>scrollTop\<close> in
  \<open>[0, scrollHeight - clientHeight]\<close> and the thumb lower than the viewport
  (\<open>offsetHeight < clientHeight\<close>, that is \<open>thumbMaxY > 0\<close>). \<open>updateThumbPosition\<close> writes the
  offset \<open>scrollTop / (scrollHeight - clientHeight) * thumbMaxY\<close>, and a drag move whose
  candidate offset is that offset assigns exactly the original \<open>scrollTop\<close> to the viewport
  (in exact arithmetic; rounding is not modelled).
\<close>

theorem C3_round_trip:
  assumes "viewportEl s = Some v" and "thumbEl s = Some t" and "isDragging s"
    and "clientHeight v < scrollHeight v"
    and "0 \<le> scrollTop v" and "scrollTop v \<le> scrollHeight v - clientHeight v"
    and "offsetHeight t < clientHeight v"
    and "js_add (thumbStartY s) (js_sub (Fin (clientY event)) (dragStartY s))
           = Fin (scrollTop v / (scrollHeight v - clientHeight v)
                  * (clientHeight v - offsetHeight t))"
  shows "map_option transform (thumbStyle (state_of (updateThumbPosition numToString s)))
           = Some (translate3d numToString
               (Fin (scrollTop v / (scrollHeight v - clientHeight v)
                     * (clientHeight v - offsetHeight t))))
       \<and> scrollCalls (state_of (onDocumentMouseMove numToString event s))
           = scroll_calls v @ [SetScrollTop (Fin (scrollTop v))]"
proof -
  define d where "d = scrollHeight v - clientHeight v"
  define m where "m = clientHeight v - offsetHeight t"
  define y where "y = scrollTop v / d * m"
  from assms have d: "0 < d" and m: "0 < m" by (simp_all add: d_def m_def)
  from assms(5,6) have x: "0 \<le> scrollTop v" "scrollTop v \<le> d" by (simp_all add: d_def)
  from round_trip_arith [OF d m x]
  have y: "0 \<le> y" "y \<le> m" "y / m * d = scrollTop v" by (simp_all add: y_def)
  have cand: "js_add (thumbStartY s) (js_sub (Fin (clientY event)) (dragStartY s)) = Fin y"
    using assms(8) by (simp add: y_def d_def m_def)
  have "js_mul (js_div (Fin (scrollTop v)) (Fin d)) (Fin m) = Fin y"
    using d by (simp add: y_def)
  then have pos: "map_option transform (thumbStyle (state_of (updateThumbPosition numToString s)))
           = Some (translate3d numToString (Fin y))"
    using assms(1,2) by (simp add: updateThumbPosition_def Let_def observe_defs d_def m_def)
  have "js_mul (js_div (Math_max (Fin 0) (Math_min (Fin y) (Fin m))) (Fin m)) (Fin d)
          = Fin (scrollTop v)"
    using y m by (simp add: min_absorb1 max_absorb2)
  then have inv: "scrollCalls (state_of (onDocumentMouseMove numToString event s))
           = scroll_calls v @ [SetScrollTop (Fin (scrollTop v))]"
    using assms(1,2,3) cand
    by (simp add: onDocumentMouseMove_def Let_def observe_defs d_def m_def)
  from pos inv show ?thesis by (simp add: y_def d_def m_def)
qed

theorem C3_round_trip_witness:
  "map_option transform (thumbStyle (state_of (updateThumbPosition integerToString
       (exampleDrag 90 300 1000 300 90)))) = Some ''translate3d(0, 90px, 0)''
   \<and> scrollCalls (state_of (onDocumentMouseMove integerToString (mouseAt 0)
       (exampleDrag 90 300 1000 300 90))) = [SetScrollTop (Fin 300)]"
proof -
  have a: "viewportEl (exampleDrag 90 300 1000 300 90) = Some (exampleViewport 300 1000 300)"
    "thumbEl (exampleDrag 90 300 1000 300 90) = Some (exampleThumb 90)"
    "isDragging (exampleDrag 90 300 1000 300 90)"
    "clientHeight (exampleViewport 300 1000 300) < scrollHeight (exampleViewport 300 1000 300)"
    "0 \<le> scrollTop (exampleViewport 300 1000 300)"
    "scrollTop (exampleViewport 300 1000 300)
       \<le> scrollHeight (exampleViewport 300 1000 300) - clientHeight (exampleViewport 300 1000 300)"
    "offsetHeight (exampleThumb 90) < clientHeight (exampleViewport 300 1000 300)"
    "js_add (thumbStartY (exampleDrag 90 300 1000 300 90))
        (js_sub (Fin (clientY (mouseAt 0))) (dragStartY (exampleDrag 90 300 1000 300 90)))
       = Fin (scrollTop (exampleViewport 300 1000 300)
              / (scrollHeight (exampleViewport 300 1000 300)
                   - clientHeight (exampleViewport 300 1000 300))
              * (clientHeight (exampleViewport 300 1000 300) - offsetHeight (exampleThumb 90)))"
    by (simp_all add: example_defs)
  from C3_round_trip [OF a, where numToString = integerToString]
  show ?thesis
    by (simp add: exampleViewport_def exampleThumb_def translate3d_def show_defs)
qed

text \<open>
  C3 as stated fails where the thumb fills the viewport: with \<open>clientHeight = 50\<close> and
  \<open>scrollHeight = 100\<close> the thumb is 50 pixels high (the height \<open>updateThumbSize\<close> writes),
  \<open>thumbMaxY = 0\<close>, the position of \<open>scrollTop = 30\<close> is the offset \<open>0\<close>, and the drag maps
  that offset to \<open>0 / 0 * 50\<close>: it assigns NaN, not \<open>30\<close>.
\<close>

theorem C3_full_height_thumb_counterexample:
  "clientHeight (exampleViewport 30 100 50) < scrollHeight (exampleViewport 30 100 50)
   \<and> 0 \<le> scrollTop (exampleViewport 30 100 50)
   \<and> scrollTop (exampleViewport 30 100 50)
       \<le> scrollHeight (exampleViewport 30 100 50) - clientHeight (exampleViewport 30 100 50)
   \<and> map_option height (thumbStyle (state_of (updateThumbSize integerToString
        (exampleDrag 0 30 100 50 50)))) = Some ''50px''
   \<and> map_option transform (thumbStyle (state_of (updateThumbPosition integerToString
        (exampleDrag 0 30 100 50 50)))) = Some ''translate3d(0, 0px, 0)''
   \<and> js_add (thumbStartY (exampleDrag 0 30 100 50 50))
        (js_sub (Fin (clientY (mouseAt 0))) (dragStartY (exampleDrag 0 30 100 50 50))) = Fin 0
   \<and> scrollCalls (state_of (onDocumentMouseMove integerToString (mouseAt 0)
        (exampleDrag 0 30 100 50 50))) = [SetScrollTop NaN]"
  by (simp add: example_defs updateThumbSize_def updateThumbPosition_def onDocumentMouseMove_def
      observe_defs Let_def show_defs translate3d_def)

section \<open>Click on the track\<close>

lemma onTrackClick_eval:
  assumes "viewportEl s = Some v" and "thumbEl s = Some t" and "\<not> targetIsThumb event"
  shows "onTrackClick event s =
     Returns (s\<lparr>viewportEl := Some (v\<lparr>scroll_calls := scroll_calls v @
       [ScrollTo
          (if clientHeight v - offsetHeight t = 0 then NaN
           else Fin (max 0 (min (clientY event - rectTop event - offsetHeight t / 2)
                               (clientHeight v - offsetHeight t))
                     / (clientHeight v - offsetHeight t) * (scrollHeight v - clientHeight v)))
          ''smooth'']\<rparr>)\<rparr>)"
  using assms by (simp add: onTrackClick_def Let_def)

lemma drag_as_click:
  assumes "viewportEl s = Some v" and "thumbEl s = Some t" and "isDragging s"
    and "js_add (thumbStartY s) (js_sub (Fin (clientY move)) (dragStartY s)) = Fin y"
  shows "scrollCalls (state_of (onDocumentMouseMove numToString move s)) =
       scroll_calls v @
       [SetScrollTop
          (if clientHeight v - offsetHeight t = 0 then NaN
           else Fin (max 0 (min y (clientHeight v - offsetHeight t))
                     / (clientHeight v - offsetHeight t) * (scrollHeight v - clientHeight v)))]"
    and "map_option transform (thumbStyle (state_of (onDocumentMouseMove numToString move s)))
       = Some (translate3d numToString (Fin (max 0 (min y (clientHeight v - offsetHeight t)))))"
  using assms by (simp_all add: onDocumentMouseMove_dragging observe_defs)

text \<open>
  C8 (as amended). A click whose target is the thumb changes nothing. Any other click on the
  track of a mounted widget returns after one call \<open>scrollTo({top, behavior: 'smooth'})\<close>,
  and nothing else changes. The target offset is
  \<open>clampedThumbY = max(0, min(clientY - rect.top - offsetHeight / 2, thumbMaxY))\<close>: with
  \<open>thumbMaxY \<ge> 0\<close> it lies in \<open>[0, thumbMaxY]\<close>, it is \<open>0\<close> for a click at or above the point
  half a thumb below the top of the track, \<open>thumbMaxY\<close> for one at or below the point half a
  thumb above its end, and \<open>clientY - rect.top - offsetHeight / 2\<close> in between; with
  \<open>thumbMaxY < 0\<close> it is \<open>0\<close>. The position asked for is
  \<open>top = clampedThumbY / thumbMaxY * (scrollHeight - clientHeight)\<close>, which is NaN when
  \<open>thumbMaxY = 0\<close>. The mapping is the one of the drag: a drag move whose candidate offset
  is the click's target offset writes \<open>clampedThumbY\<close> to the thumb and assigns the same
  \<open>top\<close> to \<open>scrollTop\<close>.
\<close>

theorem C8_track_click:
  "(targetIsThumb event \<and> thumbEl s \<noteq> None \<longrightarrow> onTrackClick event s = Returns s)
   \<and> (viewportEl s = Some v \<and> thumbEl s = Some t \<and> \<not> targetIsThumb event \<longrightarrow>
       (let targetThumbY = clientY event - rectTop event - offsetHeight t / 2;
            thumbMaxY = clientHeight v - offsetHeight t;
            clampedThumbY = max 0 (min targetThumbY thumbMaxY);
            newScrollTop =
              (if thumbMaxY = 0 then NaN
               else Fin (clampedThumbY / thumbMaxY * (scrollHeight v - clientHeight v)))
        in Math_max (Fin 0) (Math_min (Fin targetThumbY) (Fin thumbMaxY)) = Fin clampedThumbY
         \<and> js_mul (js_div (Fin clampedThumbY) (Fin thumbMaxY))
              (Fin (scrollHeight v - clientHeight v)) = newScrollTop
         \<and> onTrackClick event s =
             Returns (s\<lparr>viewportEl := Some (v\<lparr>scroll_calls :=
                          scroll_calls v @ [ScrollTo newScrollTop ''smooth'']\<rparr>)\<rparr>)
         \<and> (0 \<le> thumbMaxY \<longrightarrow> 0 \<le> clampedThumbY \<and> clampedThumbY \<le> thumbMaxY)
         \<and> (0 \<le> thumbMaxY \<and> targetThumbY \<le> 0 \<longrightarrow> clampedThumbY = 0)
         \<and> (0 \<le> thumbMaxY \<and> thumbMaxY \<le> targetThumbY \<longrightarrow> clampedThumbY = thumbMaxY)
         \<and> (0 \<le> targetThumbY \<and> targetThumbY \<le> thumbMaxY \<longrightarrow> clampedThumbY = targetThumbY)
         \<and> (thumbMaxY < 0 \<longrightarrow> clampedThumbY = 0)
         \<and> (\<forall>numToString move.
               isDragging s
               \<and> js_add (thumbStartY s) (js_sub (Fin (clientY move)) (dragStartY s))
                   = Fin targetThumbY \<longrightarrow>
               scrollCalls (state_of (onDocumentMouseMove numToString move s))
                 = scroll_calls v @ [SetScrollTop newScrollTop]
               \<and> map_option transform
                    (thumbStyle (state_of (onDocumentMouseMove numToString move s)))
                 = Some (translate3d numToString (Fin clampedThumbY)))))"
proof -
  let ?y = "clientY event - rectTop event - offsetHeight t / 2"
  let ?m = "clientHeight v - offsetHeight t"
  let ?c = "max 0 (min ?y ?m)"
  let ?top = "if ?m = 0 then NaN else Fin (?c / ?m * (scrollHeight v - clientHeight v))"
  have 1: "targetIsThumb event \<and> thumbEl s \<noteq> None \<longrightarrow> onTrackClick event s = Returns s"
    by (simp add: onTrackClick_def)
  have 2: "Math_max (Fin 0) (Math_min (Fin ?y) (Fin ?m)) = Fin ?c"
    by (simp add: clamp_cases)
  have 3: "js_mul (js_div (Fin ?c) (Fin ?m)) (Fin (scrollHeight v - clientHeight v)) = ?top"
    by simp
  have 4: "viewportEl s = Some v \<and> thumbEl s = Some t \<and> \<not> targetIsThumb event \<longrightarrow>
       onTrackClick event s =
         Returns (s\<lparr>viewportEl := Some (v\<lparr>scroll_calls :=
                          scroll_calls v @ [ScrollTo ?top ''smooth'']\<rparr>)\<rparr>)"
    using onTrackClick_eval [of s v t event] by blast
  have 5: "(0 \<le> ?m \<longrightarrow> 0 \<le> ?c \<and> ?c \<le> ?m)" "(0 \<le> ?m \<and> ?y \<le> 0 \<longrightarrow> ?c = 0)"
    "(0 \<le> ?m \<and> ?m \<le> ?y \<longrightarrow> ?c = ?m)" "(0 \<le> ?y \<and> ?y \<le> ?m \<longrightarrow> ?c = ?y)" "(?m < 0 \<longrightarrow> ?c = 0)"
    by auto
  have 6: "viewportEl s = Some v \<and> thumbEl s = Some t \<longrightarrow>
       (\<forall>numToString move.
               isDragging s
               \<and> js_add (thumbStartY s) (js_sub (Fin (clientY move)) (dragStartY s)) = Fin ?y \<longrightarrow>
               scrollCalls (state_of (onDocumentMouseMove numToString move s))
                 = scroll_calls v @ [SetScrollTop ?top]
               \<and> map_option transform
                    (thumbStyle (state_of (onDocumentMouseMove numToString move s)))
                 = Some (translate3d numToString (Fin ?c)))"
    using drag_as_click [of s v t] by blast
  from 1 2 3 4 5 6 show ?thesis unfolding Let_def by blast
qed

theorem C8_track_click_witness:
  "onTrackClick (mouseAt 200) (exampleWidget 0 1000 300 90) =
     Returns ((exampleWidget 0 1000 300 90)\<lparr>viewportEl :=
        Some ((exampleViewport 0 1000 300)\<lparr>scroll_calls := [ScrollTo (Fin (1550 / 3)) ''smooth'']\<rparr>)\<rparr>)
   \<and> onTrackClick (mouseAt 10) (exampleWidget 0 1000 300 90) =
     Returns ((exampleWidget 0 1000 300 90)\<lparr>viewportEl :=
        Some ((exampleViewport 0 1000 300)\<lparr>scroll_calls := [ScrollTo (Fin 0) ''smooth'']\<rparr>)\<rparr>)
   \<and> onTrackClick (mouseAt 295) (exampleWidget 0 1000 300 90) =
     Returns ((exampleWidget 0 1000 300 90)\<lparr>viewportEl :=
        Some ((exampleViewport 0 1000 300)\<lparr>scroll_calls := [ScrollTo (Fin 700) ''smooth'']\<rparr>)\<rparr>)
   \<and> onTrackClick ((mouseAt 200)\<lparr>targetIsThumb := True\<rparr>) (exampleWidget 0 1000 300 90)
       = Returns (exampleWidget 0 1000 300 90)
   \<and> scrollCalls (state_of (onDocumentMouseMove integerToString (mouseAt 105)
        (exampleDrag 50 0 1000 300 90))) = [SetScrollTop (Fin (1550 / 3))]
   \<and> map_option transform (thumbStyle (state_of (onDocumentMouseMove integerToString
        (mouseAt 105) (exampleDrag 50 0 1000 300 90)))) = Some ''translate3d(0, 155px, 0)''"
proof -
  let ?w = "exampleWidget 0 1000 300 90"
  let ?d = "exampleDrag 50 0 1000 300 90"
  have a: "viewportEl ?w = Some (exampleViewport 0 1000 300)"
    "thumbEl ?w = Some (exampleThumb 90)" "\<And>y. \<not> targetIsThumb (mouseAt y)"
    "viewportEl ?d = Some (exampleViewport 0 1000 300)"
    "thumbEl ?d = Some (exampleThumb 90)" "isDragging ?d"
    by (simp_all add: example_defs)
  have b: "targetIsThumb ((mouseAt 200)\<lparr>targetIsThumb := True\<rparr>) \<and> thumbEl ?w \<noteq> None"
    by (simp add: example_defs)
  have c: "js_add (thumbStartY ?d) (js_sub (Fin (clientY (mouseAt 105))) (dragStartY ?d))
      = Fin (clientY (mouseAt 200) - rectTop (mouseAt 200) - offsetHeight (exampleThumb 90) / 2)"
    by (simp add: example_defs)
  from a C8_track_click [where event = "mouseAt 200" and s = ?w
      and v = "exampleViewport 0 1000 300" and t = "exampleThumb 90"]
  have 1: "onTrackClick (mouseAt 200) ?w =
     Returns (?w\<lparr>viewportEl :=
        Some ((exampleViewport 0 1000 300)\<lparr>scroll_calls := [ScrollTo (Fin (1550 / 3)) ''smooth'']\<rparr>)\<rparr>)"
    by (simp add: Let_def exampleViewport_def exampleThumb_def mouseAt_def)
  from a C8_track_click [where event = "mouseAt 10" and s = ?w
      and v = "exampleViewport 0 1000 300" and t = "exampleThumb 90"]
  have 2: "onTrackClick (mouseAt 10) ?w =
     Returns (?w\<lparr>viewportEl :=
        Some ((exampleViewport 0 1000 300)\<lparr>scroll_calls := [ScrollTo (Fin 0) ''smooth'']\<rparr>)\<rparr>)"
    by (simp add: Let_def exampleViewport_def exampleThumb_def mouseAt_def)
  from a C8_track_click [where event = "mouseAt 295" and s = ?w
      and v = "exampleViewport 0 1000 300" and t = "exampleThumb 90"]
  have 3: "onTrackClick (mouseAt 295) ?w =
     Returns (?w\<lparr>viewportEl :=
        Some ((exampleViewport 0 1000 300)\<lparr>scroll_calls := [ScrollTo (Fin 700) ''smooth'']\<rparr>)\<rparr>)"
    by (simp add: Let_def exampleViewport_def exampleThumb_def mouseAt_def)
  from b C8_track_click [where event = "(mouseAt 200)\<lparr>targetIsThumb := True\<rparr>" and s = ?w]
  have 4: "onTrackClick ((mouseAt 200)\<lparr>targetIsThumb := True\<rparr>) ?w = Returns ?w"
    by blast
  from a c C8_track_click [where event = "mouseAt 200" and s = ?d
      and v = "exampleViewport 0 1000 300" and t = "exampleThumb 90"]
  have "scrollCalls (state_of (onDocumentMouseMove integerToString (mouseAt 105) ?d))
       = scroll_calls (exampleViewport 0 1000 300) @
         [SetScrollTop (if clientHeight (exampleViewport 0 1000 300) - offsetHeight (exampleThumb 90) = 0
            then NaN
            else Fin (max 0 (min (clientY (mouseAt 200) - rectTop (mouseAt 200)
                                    - offsetHeight (exampleThumb 90) / 2)
                                 (clientHeight (exampleViewport 0 1000 300)
                                    - offsetHeight (exampleThumb 90)))
                      / (clientHeight (exampleViewport 0 1000 300) - offsetHeight (exampleThumb 90))
                      * (scrollHeight (exampleViewport 0 1000 300)
                          - clientHeight (exampleViewport 0 1000 300))))]
     \<and> map_option transform (thumbStyle (state_of (onDocumentMouseMove integerToString
          (mouseAt 105) ?d)))
       = Some (translate3d integerToString
           (Fin (max 0 (min (clientY (mouseAt 200) - rectTop (mouseAt 200)
                                    - offsetHeight (exampleThumb 90) / 2)
                                 (clientHeight (exampleViewport 0 1000 300)
                                    - offsetHeight (exampleThumb 90))))))"
    unfolding Let_def by blast
  then have 5: "scrollCalls (state_of (onDocumentMouseMove integerToString (mouseAt 105) ?d))
       = [SetScrollTop (Fin (1550 / 3))]
     \<and> map_option transform (thumbStyle (state_of (onDocumentMouseMove integerToString
          (mouseAt 105) ?d))) = Some ''translate3d(0, 155px, 0)''"
    by (simp add: exampleViewport_def exampleThumb_def mouseAt_def emptyStyle_def
        translate3d_def show_defs)
  from 1 2 3 4 5 show ?thesis by blast
qed

text \<open>
  C8 as stated fails for a thumb as high as the viewport or higher. With \<open>clientHeight = 40\<close>
  and \<open>offsetHeight = 50\<close>, \<open>thumbMaxY = -10\<close>: a click far below the track has the target
  offset \<open>0\<close>, which is not inside \<open>[0, thumbMaxY]\<close>, and asks for \<open>top = 0\<close>. With
  \<open>clientHeight = offsetHeight = 50\<close>, \<open>thumbMaxY = 0\<close> and the click asks for \<open>top = NaN\<close>.
\<close>

theorem C8_negative_range_counterexample:
  "scrollCalls (state_of (onTrackClick (mouseAt 100000) (exampleWidget 0 100 40 50)))
     = [ScrollTo (Fin 0) ''smooth'']
   \<and> Math_max (Fin 0)
       (Math_min (Fin (clientY (mouseAt 100000) - rectTop (mouseAt 100000)
                        - offsetHeight (exampleThumb 50) / 2))
                 (Fin (clientHeight (exampleViewport 0 100 40) - offsetHeight (exampleThumb 50))))
     = Fin 0
   \<and> clientHeight (exampleViewport 0 100 40) - offsetHeight (exampleThumb 50) = - 10
   \<and> \<not> js_le (Fin 0)
         (Fin (clientHeight (exampleViewport 0 100 40) - offsetHeight (exampleThumb 50)))
   \<and> scrollCalls (state_of (onTrackClick (mouseAt 30) (exampleWidget 30 100 50 50)))
     = [ScrollTo NaN ''smooth'']"
  by (simp add: example_defs onTrackClick_def observe_defs Let_def)

section \<open>Colour overrides\<close>

text \<open>
  C10. Before \<open>ngAfterViewInit\<close>, \<open>applyCustomization\<close> changes nothing. On a mounted
  widget, a non-empty \<open>thumbColorOverride\<close> is what \<open>applyCustomization\<close>
  writes as the thumb's background colour and as both custom properties
  \<open>--custom-scrollbar-thumb-hover\<close> and \<open>--custom-scrollbar-thumb-active\<close>; a non-empty
  \<open>trackColorOverride\<close> is what it writes as the track's background colour and as
  \<open>--custom-scrollbar-track-hover\<close>. The scheme's own colours are written only where the
  override is empty.
\<close>

theorem C10_override_replaces_variants:
  "(thumbEl s = None \<or> viewportEl s = None \<longrightarrow> applyCustomization numToString s = s)
   \<and> (thumbEl s \<noteq> None \<and> viewportEl s \<noteq> None \<longrightarrow>
       (thumbColorOverride s \<noteq> [] \<longrightarrow>
            map_option background_color (thumbStyle (applyCustomization numToString s))
              = Some (thumbColorOverride s, ''important'')
          \<and> rootStyle (applyCustomization numToString s) ''--custom-scrollbar-thumb-hover''
              = Some (thumbColorOverride s)
          \<and> rootStyle (applyCustomization numToString s) ''--custom-scrollbar-thumb-active''
              = Some (thumbColorOverride s))
       \<and> (trackColorOverride s \<noteq> [] \<longrightarrow>
            map_option background_color (trackStyle (applyCustomization numToString s))
              = map_option (\<lambda>e. (trackColorOverride s, ''important'')) (parentElement s)
          \<and> rootStyle (applyCustomization numToString s) ''--custom-scrollbar-track-hover''
              = Some (trackColorOverride s))
       \<and> (thumbColorOverride s = [] \<longrightarrow>
            map_option background_color (thumbStyle (applyCustomization numToString s))
              = Some (thumb (colorSchemes (currentThemeColor s)), ''important'')
          \<and> rootStyle (applyCustomization numToString s) ''--custom-scrollbar-thumb-hover''
              = Some (thumbHover (colorSchemes (currentThemeColor s)))
          \<and> rootStyle (applyCustomization numToString s) ''--custom-scrollbar-thumb-active''
              = Some (thumbActive (colorSchemes (currentThemeColor s))))
       \<and> (trackColorOverride s = [] \<longrightarrow>
            map_option background_color (trackStyle (applyCustomization numToString s))
              = map_option (\<lambda>e. (track (colorSchemes (currentThemeColor s)), ''important''))
                  (parentElement s)
          \<and> rootStyle (applyCustomization numToString s) ''--custom-scrollbar-track-hover''
              = Some (trackHover (colorSchemes (currentThemeColor s)))))"
proof -
  have unmounted:
    "thumbEl s = None \<or> viewportEl s = None \<longrightarrow> applyCustomization numToString s = s"
    by (auto simp add: applyCustomization_def split: option.splits)
  have mounted: "thumbEl s \<noteq> None \<and> viewportEl s \<noteq> None \<longrightarrow>
       (thumbColorOverride s \<noteq> [] \<longrightarrow>
            map_option background_color (thumbStyle (applyCustomization numToString s))
              = Some (thumbColorOverride s, ''important'')
          \<and> rootStyle (applyCustomization numToString s) ''--custom-scrollbar-thumb-hover''
              = Some (thumbColorOverride s)
          \<and> rootStyle (applyCustomization numToString s) ''--custom-scrollbar-thumb-active''
              = Some (thumbColorOverride s))
       \<and> (trackColorOverride s \<noteq> [] \<longrightarrow>
            map_option background_color (trackStyle (applyCustomization numToString s))
              = map_option (\<lambda>e. (trackColorOverride s, ''important'')) (parentElement s)
          \<and> rootStyle (applyCustomization numToString s) ''--custom-scrollbar-track-hover''
              = Some (trackColorOverride s))
       \<and> (thumbColorOverride s = [] \<longrightarrow>
            map_option background_color (thumbStyle (applyCustomization numToString s))
              = Some (thumb (colorSchemes (currentThemeColor s)), ''important'')
          \<and> rootStyle (applyCustomization numToString s) ''--custom-scrollbar-thumb-hover''
              = Some (thumbHover (colorSchemes (currentThemeColor s)))
          \<and> rootStyle (applyCustomization numToString s) ''--custom-scrollbar-thumb-active''
              = Some (thumbActive (colorSchemes (currentThemeColor s))))
       \<and> (trackColorOverride s = [] \<longrightarrow>
            map_option background_color (trackStyle (applyCustomization numToString s))
              = map_option (\<lambda>e. (track (colorSchemes (currentThemeColor s)), ''important''))
                  (parentElement s)
          \<and> rootStyle (applyCustomization numToString s) ''--custom-scrollbar-track-hover''
              = Some (trackHover (colorSchemes (currentThemeColor s))))"
    by (cases "thumbEl s"; cases "viewportEl s")
      (simp_all add: applyCustomization_def Let_def or_else_def observe_defs option.map_comp
        comp_def)
  from unmounted mounted show ?thesis by blast
qed

theorem C10_override_replaces_variants_witness:
  "map_option background_color (thumbStyle (applyCustomization integerToString
       ((exampleWidget 0 1000 300 90)\<lparr>thumbColorOverride := ''#ff0000'',
          trackColorOverride := ''#eeeeee''\<rparr>))) = Some (''#ff0000'', ''important'')
   \<and> rootStyle (applyCustomization integerToString
       ((exampleWidget 0 1000 300 90)\<lparr>thumbColorOverride := ''#ff0000'',
          trackColorOverride := ''#eeeeee''\<rparr>)) ''--custom-scrollbar-thumb-hover'' = Some ''#ff0000''
   \<and> rootStyle (applyCustomization integerToString
       ((exampleWidget 0 1000 300 90)\<lparr>thumbColorOverride := ''#ff0000'',
          trackColorOverride := ''#eeeeee''\<rparr>)) ''--custom-scrollbar-thumb-active'' = Some ''#ff0000''
   \<and> rootStyle (applyCustomization integerToString
       ((exampleWidget 0 1000 300 90)\<lparr>thumbColorOverride := ''#ff0000'',
          trackColorOverride := ''#eeeeee''\<rparr>)) ''--custom-scrollbar-track-hover'' = Some ''#eeeeee''
   \<and> map_option background_color (trackStyle (applyCustomization integerToString
       ((exampleWidget 0 1000 300 90)\<lparr>thumbColorOverride := ''#ff0000'',
          trackColorOverride := ''#eeeeee''\<rparr>))) = Some (''#eeeeee'', ''important'')
   \<and> rootStyle (applyCustomization integerToString (exampleWidget 0 1000 300 90))
         ''--custom-scrollbar-thumb-hover'' = Some ''rgba(21, 128, 61, 0.9)''
   \<and> applyCustomization integerToString newComponent = newComponent"
proof -
  let ?s = "(exampleWidget 0 1000 300 90)\<lparr>thumbColorOverride := ''#ff0000'',
          trackColorOverride := ''#eeeeee''\<rparr>"
  have a: "thumbEl ?s \<noteq> None \<and> viewportEl ?s \<noteq> None"
    by (simp add: example_defs)
  have b: "thumbEl (exampleWidget 0 1000 300 90) \<noteq> None
      \<and> viewportEl (exampleWidget 0 1000 300 90) \<noteq> None"
    by (simp add: example_defs)
  have u: "thumbEl newComponent = None"
    by (simp add: newComponent_def)
  have c: "thumbColorOverride ?s = ''#ff0000''" "trackColorOverride ?s = ''#eeeeee''"
    "parentElement ?s = Some \<lparr>style = emptyStyle, offsetHeight = 0\<rparr>"
    "thumbColorOverride (exampleWidget 0 1000 300 90) = []"
    "currentThemeColor (exampleWidget 0 1000 300 90) = Green"
    by (simp_all add: example_defs)
  from a C10_override_replaces_variants [where s = ?s and numToString = integerToString]
  have 1: "map_option background_color (thumbStyle (applyCustomization integerToString ?s))
       = Some (''#ff0000'', ''important'')
     \<and> rootStyle (applyCustomization integerToString ?s) ''--custom-scrollbar-thumb-hover''
       = Some ''#ff0000''
     \<and> rootStyle (applyCustomization integerToString ?s) ''--custom-scrollbar-thumb-active''
       = Some ''#ff0000''
     \<and> rootStyle (applyCustomization integerToString ?s) ''--custom-scrollbar-track-hover''
       = Some ''#eeeeee''
     \<and> map_option background_color (trackStyle (applyCustomization integerToString ?s))
       = Some (''#eeeeee'', ''important'')"
    by (simp add: c)
  from b C10_override_replaces_variants [where s = "exampleWidget 0 1000 300 90"
      and numToString = integerToString]
  have 2: "rootStyle (applyCustomization integerToString (exampleWidget 0 1000 300 90))
         ''--custom-scrollbar-thumb-hover'' = Some ''rgba(21, 128, 61, 0.9)''"
    by (simp add: c colorSchemes_def)
  from u C10_override_replaces_variants [where s = newComponent
      and numToString = integerToString]
  have 3: "applyCustomization integerToString newComponent = newComponent"
    by blast
  from 1 2 3 show ?thesis by blast
qed

section \<open>Reading the thumb offset back\<close>














































section \<open>Who writes the thumb position during a drag\<close>

text \<open>Apart from the two move handlers and \<open>updateThumbPosition\<close>, no method writes the
  thumb's \<open>transform\<close>.\<close>

lemma thumbTransform_updateThumbSize:
  "map_option transform (thumbStyle (state_of (updateThumbSize numToString s)))
     = map_option transform (thumbStyle s)"
  by (simp add: updateThumbSize_def observe_defs Let_def split: option.splits)

lemma thumbTransform_applyCustomization:
  "map_option transform (thumbStyle (applyCustomization numToString s))
     = map_option transform (thumbStyle s)"
  by (simp add: applyCustomization_def observe_defs Let_def split: option.splits)

lemma thumbTransform_navigationEnd:
  "map_option transform (thumbStyle (navigationEnd numToString url s))
     = map_option transform (thumbStyle s)"
proof -
  have "thumbStyle (updateThemeColor url s) = thumbStyle s"
    by (simp add: updateThemeColor_def thumbStyle_def)
  then show ?thesis
    by (simp add: navigationEnd_def Let_def thumbTransform_applyCustomization)
qed

lemma thumbTransform_onThumbMouseDown:
  "map_option transform (thumbStyle (state_of (onThumbMouseDown event s)))
     = map_option transform (thumbStyle s)"
  by (simp add: onThumbMouseDown_def observe_defs Let_def bind_this_def addEventListener_def
      split: option.splits)

lemma thumbTransform_onThumbTouchStart:
  "map_option transform (thumbStyle (state_of (onThumbTouchStart event s)))
     = map_option transform (thumbStyle s)"
  by (simp add: onThumbTouchStart_def observe_defs Let_def bind_this_def addEventListener_def
      split: option.splits list.splits)

lemma thumbTransform_onDocumentMouseUp:
  "map_option transform (thumbStyle (state_of (onDocumentMouseUp s)))
     = map_option transform (thumbStyle s)"
  by (simp add: onDocumentMouseUp_def observe_defs Let_def bind_this_def removeEventListener_def
      split: option.splits)

lemma thumbTransform_onDocumentTouchEnd:
  "map_option transform (thumbStyle (state_of (onDocumentTouchEnd s)))
     = map_option transform (thumbStyle s)"
  by (simp add: onDocumentTouchEnd_def observe_defs Let_def bind_this_def removeEventListener_def
      split: option.splits)

lemma thumbTransform_onTrackClick:
  "map_option transform (thumbStyle (state_of (onTrackClick event s)))
     = map_option transform (thumbStyle s)"
  by (simp add: onTrackClick_def observe_defs Let_def split: option.splits)

lemma thumbTransform_ngOnDestroy:
  "map_option transform (thumbStyle (ngOnDestroy s)) = map_option transform (thumbStyle s)"
  by (simp add: ngOnDestroy_def observe_defs Let_def bind_this_def removeEventListener_def
      split: option.splits)

lemma thumbTransform_schedule:
  "thumbStyle (onWindowResize s) = thumbStyle s"
  "thumbStyle (mutationObserved s) = thumbStyle s"
  by (simp_all add: onWindowResize_def mutationObserved_def setTimeout_def thumbStyle_def)

lemma runListeners_preserves:
  assumes "\<And>s. g (state_of (f s)) = g s"
  shows "g (runListeners k f s) = g s"
  by (induction k arbitrary: s) (simp_all add: assms)

lemma thumbTransform_runTimerCallback_Recheck:
  "map_option transform (thumbStyle (state_of (runTimerCallback numToString Recheck s)))
     = map_option transform (thumbStyle s)"
  by (simp add: runTimerCallback_def thumbTransform_updateThumbSize)

lemma thumbTransform_timeoutFires:
  assumes "\<not> runsRecompute (TimeoutFires i) s"
  shows "map_option transform (thumbStyle (state_of (timeoutFires numToString i s)))
     = map_option transform (thumbStyle s)"
proof (cases "i < length (timeouts s)")
  case False
  then show ?thesis by (simp add: timeoutFires_def state_of_def)
next
  case True
  with assms have "snd (timeouts s ! i) = Recheck"
    by (cases "snd (timeouts s ! i)") (simp_all add: runsRecompute_def)
  moreover have "thumbStyle (s\<lparr>timeouts := take i (timeouts s) @ drop (Suc i) (timeouts s)\<rparr>)
      = thumbStyle s"
    by (simp add: thumbStyle_def)
  ultimately show ?thesis using True
    by (simp add: timeoutFires_def thumbTransform_runTimerCallback_Recheck)
qed

lemma thumbTransform_intervalFires:
  assumes "\<not> runsRecompute (IntervalFires i) s"
  shows "map_option transform (thumbStyle (state_of (intervalFires numToString i s)))
     = map_option transform (thumbStyle s)"
proof (cases "i < length (intervals s)")
  case False
  then show ?thesis by (simp add: intervalFires_def state_of_def)
next
  case True
  with assms have "snd (intervals s ! i) = Recheck"
    by (cases "snd (intervals s ! i)") (simp_all add: runsRecompute_def)
  with True show ?thesis
    by (simp add: intervalFires_def thumbTransform_runTimerCallback_Recheck)
qed

lemma recompute_transform:
  assumes "viewportEl s = Some v" and "thumbEl s = Some t"
  shows "map_option transform (thumbStyle (state_of (runTimerCallback n Recompute s)))
     = Some (translate3d n
         (js_mul (js_div (Fin (scrollTop v)) (Fin (scrollHeight v - clientHeight v)))
            (Fin (clientHeight v - offsetHeight t))))"
  using assms
  by (simp add: runTimerCallback_def and_then_def updateThumbSize_def updateThumbPosition_def
      Let_def observe_defs)

lemma exampleDragMutation_fields:
  "viewportEl exampleDragMutation = Some (exampleViewport 350 1800 300)"
  "thumbEl exampleDragMutation =
     Some \<lparr>style = emptyStyle\<lparr>transform := ''translate3d(0, 105px, 0)''\<rparr>, offsetHeight = 90\<rparr>"
  "isDragging exampleDragMutation"
  "timeouts exampleDragMutation = [(50, Recompute)]"
  by (simp_all add: exampleDragMutation_def mutationObserved_def setTimeout_def example_defs)

text \<open>
  C6 (as amended). While a drag is active, a scroll event of the viewport changes nothing
  (\<open>onContentScroll\<close> returns at once), and no call into the component other than the drag's
  own pointer moves and a timer running \<open>Recompute\<close> (the recomputation scheduled at mount,
  by the mutation observer and by a window resize) changes the thumb's \<open>transform\<close>: the
  periodic recheck, which runs \<open>updateThumbSize\<close> only, does not. At rest, a scroll event
  runs \<open>updateThumbPosition\<close>.
\<close>

theorem C6_position_writers_during_drag:
  "(isDragging s \<longrightarrow>
      onContentScroll numToString s = Returns s
    \<and> (\<not> isPointerMove e \<and> \<not> runsRecompute e s \<longrightarrow>
         map_option transform (thumbStyle (deliver numToString e s))
           = map_option transform (thumbStyle s)))
   \<and> (\<not> isDragging s \<longrightarrow>
         onContentScroll numToString s = updateThumbPosition numToString s)"
proof -
  have scroll: "isDragging s \<longrightarrow> onContentScroll numToString s = Returns s"
    and idle: "\<not> isDragging s \<longrightarrow>
         onContentScroll numToString s = updateThumbPosition numToString s"
    by (simp_all add: onContentScroll_def)
  have others: "isDragging s \<and> \<not> isPointerMove e \<and> \<not> runsRecompute e s \<longrightarrow>
         map_option transform (thumbStyle (deliver numToString e s))
           = map_option transform (thumbStyle s)"
  proof (cases e)
    case (NavigationEnd url)
    then show ?thesis
      by (simp add: deliver_def thumbTransform_navigationEnd)
  next
    case ContentScroll
    then show ?thesis
      by (simp add: deliver_def onContentScroll_def state_of_def)
  next
    case (ThumbMouseDown event)
    then show ?thesis
      by (simp add: deliver_def runListeners_preserves [where f = "onThumbMouseDown event"
            and g = "\<lambda>s. map_option transform (thumbStyle s)"]
          thumbTransform_onThumbMouseDown)
  next
    case (DocumentMouseMove event)
    then show ?thesis by (simp add: isPointerMove_def)
  next
    case DocumentMouseUp
    then show ?thesis
      by (simp add: deliver_def runListeners_preserves [where f = onDocumentMouseUp
            and g = "\<lambda>s. map_option transform (thumbStyle s)"]
          thumbTransform_onDocumentMouseUp)
  next
    case (TrackClick event)
    then show ?thesis by (simp add: deliver_def thumbTransform_onTrackClick)
  next
    case (ThumbTouchStart event)
    then show ?thesis
      by (simp add: deliver_def runListeners_preserves [where f = "onThumbTouchStart event"
            and g = "\<lambda>s. map_option transform (thumbStyle s)"]
          thumbTransform_onThumbTouchStart)
  next
    case (DocumentTouchMove event)
    then show ?thesis by (simp add: isPointerMove_def)
  next
    case DocumentTouchEnd
    then show ?thesis
      by (simp add: deliver_def runListeners_preserves [where f = onDocumentTouchEnd
            and g = "\<lambda>s. map_option transform (thumbStyle s)"]
          thumbTransform_onDocumentTouchEnd)
  next
    case WindowResize
    then show ?thesis by (simp add: deliver_def thumbTransform_schedule)
  next
    case MutationObserved
    then show ?thesis by (simp add: deliver_def thumbTransform_schedule)
  next
    case (TimeoutFires i)
    then show ?thesis by (simp add: deliver_def thumbTransform_timeoutFires)
  next
    case (IntervalFires i)
    then show ?thesis by (simp add: deliver_def thumbTransform_intervalFires)
  next
    case Destroy
    then show ?thesis by (simp add: deliver_def thumbTransform_ngOnDestroy)
  qed
  from scroll idle others show ?thesis by blast
qed

theorem C6_position_writers_during_drag_witness:
  "onContentScroll integerToString exampleDragMutation = Returns exampleDragMutation
   \<and> map_option transform (thumbStyle
         (deliver integerToString (IntervalFires 0)
            (exampleDragMutation\<lparr>intervals := [(1000, Recheck)]\<rparr>)))
       = Some ''translate3d(0, 105px, 0)''
   \<and> onContentScroll integerToString (exampleWidget 700 1000 300 90)
       = updateThumbPosition integerToString (exampleWidget 700 1000 300 90)"
proof -
  let ?s = "exampleDragMutation\<lparr>intervals := [(1000, Recheck)]\<rparr>"
  have d: "isDragging exampleDragMutation" "isDragging ?s"
    "\<not> isDragging (exampleWidget 700 1000 300 90)"
    by (simp_all add: exampleDragMutation_fields example_defs)
  have e: "\<not> isPointerMove (IntervalFires 0) \<and> \<not> runsRecompute (IntervalFires 0) ?s"
    by (simp add: isPointerMove_def runsRecompute_def)
  have t: "map_option transform (thumbStyle ?s) = Some ''translate3d(0, 105px, 0)''"
    by (simp add: thumbStyle_def exampleDragMutation_fields emptyStyle_def)
  from d(1) C6_position_writers_during_drag [where s = exampleDragMutation
      and numToString = integerToString]
  have 1: "onContentScroll integerToString exampleDragMutation = Returns exampleDragMutation"
    by blast
  from d(2) e C6_position_writers_during_drag [where s = ?s and e = "IntervalFires 0"
      and numToString = integerToString]
  have "map_option transform (thumbStyle (deliver integerToString (IntervalFires 0) ?s))
       = map_option transform (thumbStyle ?s)"
    by blast
  with t have 2: "map_option transform (thumbStyle
      (deliver integerToString (IntervalFires 0) ?s)) = Some ''translate3d(0, 105px, 0)''"
    by simp
  from d(3) C6_position_writers_during_drag [where s = "exampleWidget 700 1000 300 90"
      and numToString = integerToString]
  have 3: "onContentScroll integerToString (exampleWidget 700 1000 300 90)
       = updateThumbPosition integerToString (exampleWidget 700 1000 300 90)"
    by blast
  from 1 2 3 show ?thesis by blast
qed

text \<open>
  C6 as stated fails for the recomputation after a content mutation: it runs
  \<open>updateThumbPosition\<close> whether or not a drag is active. In \<open>exampleDragMutation\<close> the drag
  has put the thumb at offset 105; the pending timeout, fired while the pointer is still
  down, moves it to \<open>350 / (1800 - 300) * (300 - 90) = 49\<close>.
\<close>

theorem C6_recompute_during_drag_counterexample:
  "isDragging exampleDragMutation
   \<and> timeouts exampleDragMutation = [(50, Recompute)]
   \<and> map_option transform (thumbStyle exampleDragMutation) = Some ''translate3d(0, 105px, 0)''
   \<and> map_option transform (thumbStyle
         (deliver integerToString (TimeoutFires 0) exampleDragMutation))
       = Some ''translate3d(0, 49px, 0)''"
proof -
  let ?s = "exampleDragMutation\<lparr>timeouts := []\<rparr>"
  have v: "viewportEl ?s = Some (exampleViewport 350 1800 300)"
    and t: "thumbEl ?s = Some \<lparr>style = emptyStyle\<lparr>transform := ''translate3d(0, 105px, 0)''\<rparr>,
          offsetHeight = 90\<rparr>"
    by (simp_all add: exampleDragMutation_fields)
  have "deliver integerToString (TimeoutFires 0) exampleDragMutation
      = state_of (runTimerCallback integerToString Recompute ?s)"
    by (simp add: deliver_def timeoutFires_def exampleDragMutation_fields)
  with recompute_transform [OF v t, of integerToString]
  have "map_option transform (thumbStyle
         (deliver integerToString (TimeoutFires 0) exampleDragMutation))
       = Some ''translate3d(0, 49px, 0)''"
    by (simp add: exampleViewport_def translate3d_def show_defs)
  then show ?thesis
    by (simp add: exampleDragMutation_fields thumbStyle_def emptyStyle_def)
qed

section \<open>Teardown\<close>


lemma bind_this_simps [simp]:
  "fst (bind_this m s) = (functionsBound s, m)"
  "snd (bind_this m s) = s\<lparr>functionsBound := Suc (functionsBound s)\<rparr>"
  by (simp_all add: bind_this_def)

lemma addEventListener_eval:
  "addEventListener tgt ty fn s =
     s\<lparr>listeners :=
         (if \<lparr>target = tgt, eventType = ty, callback = fn\<rparr> \<in> set (listeners s)
          then listeners s
          else listeners s @ [\<lparr>target = tgt, eventType = ty, callback = fn\<rparr>])\<rparr>"
  by (simp add: addEventListener_def Let_def)

lemma setupContentObserver_eval:
  "setupContentObserver s =
     s\<lparr>contentObserver := (if mutationObserverDefined s then Some True else contentObserver s),
       intervals := intervals s @ [(1000, Recheck)]\<rparr>"
  by (simp add: setupContentObserver_def setInterval_def Let_def)

lemma applyCustomization_frame:
  "intervals (applyCustomization n s) = intervals s"
  "timeouts (applyCustomization n s) = timeouts s"
  "listeners (applyCustomization n s) = listeners s"
  "functionsBound (applyCustomization n s) = functionsBound s"
  "viewportEl (applyCustomization n s) = viewportEl s"
  "isDragging (applyCustomization n s) = isDragging s"
  "contentObserver (applyCustomization n s) = contentObserver s"
  "routerSubscribed (applyCustomization n s) = routerSubscribed s"
  "mutationObserverDefined (applyCustomization n s) = mutationObserverDefined s"
  by (simp_all add: applyCustomization_def Let_def split: option.splits)

lemma ngAfterViewInit_eval:
  "ngAfterViewInit n vr tr s =
     (applyCustomization n (s\<lparr>viewportEl := Some vr, thumbEl := Some tr\<rparr>))
       \<lparr>timeouts := timeouts s @ [(200, Recompute)],
        contentObserver := (if mutationObserverDefined s then Some True else contentObserver s),
        intervals := intervals s @ [(1000, Recheck)],
        functionsBound := Suc (Suc (functionsBound s)),
        listeners :=
          (let l1 = \<lparr>target = ThumbElement, eventType = ''mousedown'',
                      callback = (functionsBound s, OnThumbMouseDown)\<rparr>;
               l2 = \<lparr>target = ThumbElement, eventType = ''touchstart'',
                      callback = (Suc (functionsBound s), OnThumbTouchStart)\<rparr>;
               ls1 = (if l1 \<in> set (listeners s) then listeners s else listeners s @ [l1])
           in if l2 \<in> set ls1 then ls1 else ls1 @ [l2])\<rparr>"
  by (simp add: ngAfterViewInit_def Let_def split_def addEventListener_eval
      setupContentObserver_eval setTimeout_def applyCustomization_frame)

lemma updateThemeColor_eval:
  "updateThemeColor url s =
     s\<lparr>currentThemeColor := (if str_includes url ''/machine'' then Blue else Green)\<rparr>"
  by (simp add: updateThemeColor_def)

lemma ngOnDestroy_eval:
  "ngOnDestroy s =
     s\<lparr>routerSubscribed := False,
       functionsBound :=
         (if thumbEl s = None then functionsBound s else Suc (Suc (functionsBound s))),
       listeners :=
         (if thumbEl s = None then listeners s
          else removeAll \<lparr>target = ThumbElement, eventType = ''touchstart'',
                           callback = (Suc (functionsBound s), OnThumbTouchStart)\<rparr>
                 (removeAll \<lparr>target = ThumbElement, eventType = ''mousedown'',
                              callback = (functionsBound s, OnThumbMouseDown)\<rparr>
                    (listeners s))),
       contentObserver := map_option (\<lambda>observing. False) (contentObserver s)\<rparr>"
  by (cases "thumbEl s"; cases "contentObserver s")
    (simp_all add: ngOnDestroy_def Let_def split_def removeEventListener_def)

text \<open>
  \<open>ngOnDestroy\<close> stops no timer, and it removes no listener: the listeners registered so
  far hold function objects created earlier, and \<open>ngOnDestroy\<close> asks for the removal of two
  function objects it has just created.
\<close>

lemma ngOnDestroy_keeps_timers:
  "intervals (ngOnDestroy s) = intervals s \<and> timeouts (ngOnDestroy s) = timeouts s"
  by (simp add: ngOnDestroy_eval)

lemma ngOnDestroy_keeps_listeners:
  assumes "\<forall>l \<in> set (listeners s). fst (callback l) < functionsBound s"
  shows "listeners (ngOnDestroy s) = listeners s"
proof -
  have "\<And>m. \<lparr>target = ThumbElement, eventType = ''mousedown'',
              callback = (functionsBound s, m)\<rparr> \<notin> set (listeners s)"
    and "\<And>m. \<lparr>target = ThumbElement, eventType = ''touchstart'',
              callback = (Suc (functionsBound s), m)\<rparr> \<notin> set (listeners s)"
    using assms by fastforce+
  then show ?thesis by (simp add: ngOnDestroy_eval)
qed

lemma updateThumbSize_height:
  assumes "viewportEl s = Some v" and "thumbEl s = Some t"
    and "clientHeight v + 5 < scrollHeight v"
  shows "map_option height (thumbStyle (state_of (updateThumbSize n s)))
     = Some (n (Math_max (Fin 50) (Math_min (Fin (clientHeight v - 20))
          (js_mul (Fin (clientHeight v))
             (js_div (Fin (clientHeight v)) (Fin (scrollHeight v)))))) @ ''px'')"
  using assms by (simp add: updateThumbSize_def Let_def observe_defs)

lemma onThumbMouseDown_isDragging:
  "isDragging (state_of (onThumbMouseDown event s))"
  by (simp add: onThumbMouseDown_def Let_def split_def addEventListener_eval state_of_def
      split: option.splits)

lemma exampleMounted_fields:
  "viewportEl exampleMounted = Some (exampleViewport 0 1000 300)"
  "thumbEl exampleMounted =
     Some ((exampleThumb 0)\<lparr>style := emptyStyle
        \<lparr>background_color := (''#08a208'', ''important'')\<rparr>\<rparr>)"
  "intervals exampleMounted = [(1000, Recheck)]"
  "timeouts exampleMounted = [(200, Recompute)]"
  "listeners exampleMounted =
     [\<lparr>target = ThumbElement, eventType = ''mousedown'', callback = (0, OnThumbMouseDown)\<rparr>,
      \<lparr>target = ThumbElement, eventType = ''touchstart'', callback = (1, OnThumbTouchStart)\<rparr>]"
  "functionsBound exampleMounted = 2"
  "contentObserver exampleMounted = Some True"
  "routerSubscribed exampleMounted"
  "isDragging exampleMounted = False"
  by (simp_all add: exampleMounted_def ngAfterViewInit_eval ngOnInit_def updateThemeColor_eval
      applyCustomization_frame newComponent_def Let_def applyCustomization_def or_else_def
      colorSchemes_def exampleThumb_def startsWith_def)

text \<open>
  C7, evaluated on the code. After \<open>ngOnInit\<close>, \<open>ngAfterViewInit\<close> and \<open>ngOnDestroy\<close> the
  mutation observer is disconnected and the router subscription has ended, but the periodic
  recheck is still running, the initial timeout is still pending, and the thumb's
  \<open>mousedown\<close> and \<open>touchstart\<close> listeners are still registered. When the interval fires
  after teardown it writes the thumb's height, and a \<open>mousedown\<close> on the thumb after teardown
  starts a drag.
\<close>

theorem C7_teardown_leaves_timer_and_listeners:
  "intervals exampleDestroyed = [(1000, Recheck)]
   \<and> timeouts exampleDestroyed = [(200, Recompute)]
   \<and> listeners exampleDestroyed =
       [\<lparr>target = ThumbElement, eventType = ''mousedown'', callback = (0, OnThumbMouseDown)\<rparr>,
        \<lparr>target = ThumbElement, eventType = ''touchstart'', callback = (1, OnThumbTouchStart)\<rparr>]
   \<and> listeners exampleDestroyed = listeners exampleMounted
   \<and> contentObserver exampleDestroyed = Some False
   \<and> routerSubscribed exampleDestroyed = False
   \<and> map_option height (thumbStyle exampleDestroyed) = Some []
   \<and> map_option height (thumbStyle
         (deliver integerToString (IntervalFires 0) exampleDestroyed)) = Some ''90px''
   \<and> isDragging exampleDestroyed = False
   \<and> isDragging (deliver integerToString (ThumbMouseDown (mouseAt 5))
         exampleDestroyed) = True"
proof -
  have f: "intervals exampleDestroyed = [(1000, Recheck)]"
    "timeouts exampleDestroyed = [(200, Recompute)]"
    "listeners exampleDestroyed = listeners exampleMounted"
    "contentObserver exampleDestroyed = Some False"
    "routerSubscribed exampleDestroyed = False"
    "isDragging exampleDestroyed = False"
    "viewportEl exampleDestroyed = Some (exampleViewport 0 1000 300)"
    "thumbEl exampleDestroyed =
       Some ((exampleThumb 0)\<lparr>style := emptyStyle
          \<lparr>background_color := (''#08a208'', ''important'')\<rparr>\<rparr>)"
    by (simp_all add: exampleDestroyed_def ngOnDestroy_eval exampleMounted_fields)
  have h: "clientHeight (exampleViewport 0 1000 300) + 5 < scrollHeight (exampleViewport 0 1000 300)"
    by (simp add: exampleViewport_def)
  have "deliver integerToString (IntervalFires 0) exampleDestroyed
      = state_of (updateThumbSize integerToString exampleDestroyed)"
    by (simp add: deliver_def intervalFires_def runTimerCallback_def f)
  with updateThumbSize_height [OF f(7) f(8) h, of integerToString]
  have i: "map_option height (thumbStyle
         (deliver integerToString (IntervalFires 0) exampleDestroyed)) = Some ''90px''"
    by (simp add: exampleViewport_def show_defs)
  have d: "isDragging (deliver integerToString (ThumbMouseDown (mouseAt 5))
         exampleDestroyed) = True"
    by (simp add: deliver_def registered_def f exampleMounted_fields
        onThumbMouseDown_isDragging)
  have e: "map_option height (thumbStyle exampleDestroyed) = Some []"
    by (simp add: thumbStyle_def f emptyStyle_def exampleThumb_def)
  from f i d e show ?thesis by (simp add: exampleMounted_fields)
qed

end
